theory Spec2Isabelle
  imports Main
begin

section \<open>Python primitives used by the controller\<close>

text \<open>
  Strings are lists of characters, one \<^typ>\<open>char\<close> per code point below 256.
  \<open>str.strip()\<close> and \<open>str.split()\<close> treat the following characters as white space:
  tab, line feed, vertical tab, form feed, carriage return, the four separators
  0x1C..0x1F, the blank, next line (0x85) and the no-break space (0xA0).
\<close>

definition is_space :: "char \<Rightarrow> bool" where
  "is_space c = (c \<in> set [CHR 0x09, CHR 0x0A, CHR 0x0B, CHR 0x0C, CHR 0x0D,
                            CHR 0x1C, CHR 0x1D, CHR 0x1E, CHR 0x1F, CHR 0x20,
                            CHR 0x85, CHR 0xA0])"

text \<open>Removing the characters of a class from both ends of a string.\<close>

definition strip_with :: "(char \<Rightarrow> bool) \<Rightarrow> string \<Rightarrow> string" where
  "strip_with P s = rev (dropWhile P (rev (dropWhile P s)))"

definition py_strip :: "string \<Rightarrow> string" where
  "py_strip s = strip_with is_space s"

text \<open>\<open>s.split()\<close>: maximal runs of characters that are not white space, in order.\<close>

fun split_from :: "string \<Rightarrow> string \<Rightarrow> string list" where
  "split_from [] cur = (if cur = [] then [] else [cur])"
| "split_from (c # cs) cur =
     (if is_space c then (if cur = [] then split_from cs [] else cur # split_from cs [])
      else split_from cs (cur @ [c]))"

definition py_split :: "string \<Rightarrow> string list" where
  "py_split s = split_from s []"

text \<open>
  \<open>s.lower()\<close>: the letters A..Z and the capital letters 0xC0..0xDE of Latin-1 (0xD7,
  the multiplication sign, is none) go to their small letters; every other character
  below 256 is kept.
\<close>

definition lower_char :: "char \<Rightarrow> char" where
  "lower_char c =
     (case map_of (zip (''ABCDEFGHIJKLMNOPQRSTUVWXYZ''
                        @ [CHR 0xC0, CHR 0xC1, CHR 0xC2, CHR 0xC3, CHR 0xC4, CHR 0xC5, CHR 0xC6,
                           CHR 0xC7, CHR 0xC8, CHR 0xC9, CHR 0xCA, CHR 0xCB, CHR 0xCC, CHR 0xCD,
                           CHR 0xCE, CHR 0xCF, CHR 0xD0, CHR 0xD1, CHR 0xD2, CHR 0xD3, CHR 0xD4,
                           CHR 0xD5, CHR 0xD6, CHR 0xD8, CHR 0xD9, CHR 0xDA, CHR 0xDB, CHR 0xDC,
                           CHR 0xDD, CHR 0xDE])
                       (''abcdefghijklmnopqrstuvwxyz''
                        @ [CHR 0xE0, CHR 0xE1, CHR 0xE2, CHR 0xE3, CHR 0xE4, CHR 0xE5, CHR 0xE6,
                           CHR 0xE7, CHR 0xE8, CHR 0xE9, CHR 0xEA, CHR 0xEB, CHR 0xEC, CHR 0xED,
                           CHR 0xEE, CHR 0xEF, CHR 0xF0, CHR 0xF1, CHR 0xF2, CHR 0xF3, CHR 0xF4,
                           CHR 0xF5, CHR 0xF6, CHR 0xF8, CHR 0xF9, CHR 0xFA, CHR 0xFB, CHR 0xFC,
                           CHR 0xFD, CHR 0xFE])) c of
        None \<Rightarrow> c
      | Some d \<Rightarrow> d)"

definition py_lower :: "string \<Rightarrow> string" where
  "py_lower s = map lower_char s"

text \<open>\<open>os.path.join(a, b)\<close> on POSIX paths.\<close>

definition os_path_join :: "string \<Rightarrow> string \<Rightarrow> string" where
  "os_path_join a b =
     (if b \<noteq> [] \<and> hd b = CHR ''/'' then b
      else if a = [] \<or> last a = CHR ''/'' then a @ b
      else a @ ''/'' @ b)"

text \<open>The exceptions the controller can raise, and \<open>os._exit(n)\<close> as \<open>ProcessExit n\<close>.\<close>

datatype error =
    FileNotFoundError
  | ValueError
  | TypeError
  | IndexError
  | UnboundLocalError
  | JSONDecodeError
  | CalledProcessError "string list" int string
  | ProcessExit int

text \<open>\<open>xs[i]\<close> for a literal index \<open>i \<ge> 0\<close>.\<close>

definition py_index :: "'a list \<Rightarrow> nat \<Rightarrow> error + 'a" where
  "py_index xs i = (if i < length xs then Inr (xs ! i) else Inl IndexError)"

section \<open>The environment and the program state\<close>

text \<open>
  Everything the program does to the outside is logged as an event, in order: a path
  probed with \<open>os.path.isfile\<close>, a file opened, a directory created, a subprocess
  started with its argument vector, and each message box with its title and text.
\<close>

datatype event =
    IsFile string
  | Open string
  | Makedirs string
  | Exec "string list"
  | Question string string
  | Information string string
  | Warning string string
  | Critical string string
  | About string string

text \<open>
  A subprocess either cannot be started (\<open>Missing\<close>: the executable is not found and
  \<open>subprocess\<close> raises \<open>FileNotFoundError\<close>) or exits with a return code and the
  output captured by the call.
\<close>

datatype proc_result = Missing | Exited int string

record network =
  nwid :: string
  netid :: string
  name :: string
  status :: string
  portDeviceName :: string

record iface =
  ifname :: string
  operstate :: string

text \<open>
  The environment holds what the program reads and does not own: the user and group id,
  the working directory, the two Qt standard locations, the files that exist (absolute
  path to content), the outcome of each subprocess and the answer to each question box
  (\<open>True\<close> for Yes), both as functions of the events so far, \<open>json.loads\<close> on the two
  documented payloads (\<open>None\<close> when decoding raises), and the text of
  \<open>str(CalledProcessError)\<close>.
\<close>

record env =
  uid :: nat
  gid :: nat
  cwd :: string
  HOME_DIR :: string
  GenericConfigLocation :: string
  files :: "string \<rightharpoonup> string"
  run :: "event list \<Rightarrow> string list \<Rightarrow> proc_result"
  question :: "event list \<Rightarrow> string \<Rightarrow> string \<Rightarrow> bool"
  loads_networks :: "string \<Rightarrow> network list option"
  loads_interfaces :: "string \<Rightarrow> iface list option"
  str_CalledProcessError :: "string list \<Rightarrow> int \<Rightarrow> string"

text \<open>
  The state is the module global \<open>authtoken\<close>, the two widgets of the main window that
  \<open>refresh_networks\<close> writes (each table row with its texts and whether it is greyed),
  and the log of events.
\<close>

record state =
  authtoken :: "string option"
  statusLabel :: string
  networksTable :: "(string list \<times> bool) list"
  trace :: "event list"

definition APP_ID :: string where "APP_ID = ''zerotier-qt''"
definition APP_NAME :: string where "APP_NAME = ''ZeroTier-Qt''"
definition APP_VERSION :: string where "APP_VERSION = ''0.9''"

definition CONFIG_DIR :: "env \<Rightarrow> string" where
  "CONFIG_DIR ev = os_path_join (GenericConfigLocation ev) APP_ID"

definition AUTH_FILE :: "env \<Rightarrow> string" where
  "AUTH_FILE ev = os_path_join (CONFIG_DIR ev) ''authtoken.secret''"

definition SYSTEM_SECRET :: string where
  "SYSTEM_SECRET = ''/var/lib/zerotier-one/authtoken.secret''"

text \<open>A relative path is resolved against the working directory.\<close>

definition abspath :: "env \<Rightarrow> string \<Rightarrow> string" where
  "abspath ev p = os_path_join (cwd ev) p"

definition isfile :: "env \<Rightarrow> state \<Rightarrow> string \<Rightarrow> bool \<times> state" where
  "isfile ev s p =
     (files ev (abspath ev p) \<noteq> None, s\<lparr>trace := trace s @ [IsFile (abspath ev p)]\<rparr>)"

text \<open>\<open>open(p).read()\<close>.\<close>

definition open_read :: "env \<Rightarrow> state \<Rightarrow> string \<Rightarrow> (error + string) \<times> state" where
  "open_read ev s p =
     (case files ev (abspath ev p) of
        None \<Rightarrow> (Inl FileNotFoundError, s\<lparr>trace := trace s @ [Open (abspath ev p)]\<rparr>)
      | Some txt \<Rightarrow> (Inr txt, s\<lparr>trace := trace s @ [Open (abspath ev p)]\<rparr>))"

section \<open>Controller\<close>

definition get_token :: "env \<Rightarrow> state \<Rightarrow> (error + string) \<times> state" where
  "get_token ev s =
     (case authtoken s of
        Some t \<Rightarrow> (Inr t, s)
      | None \<Rightarrow>
          if uid ev = 0 then
            (case open_read ev s SYSTEM_SECRET of
               (Inl e, s1) \<Rightarrow> (Inl e, s1)
             | (Inr txt, s1) \<Rightarrow> (Inr (py_strip txt), s1\<lparr>authtoken := Some (py_strip txt)\<rparr>))
          else
            (case isfile ev s ''.zeroTierOneAuthToken'' of
               (True, s1) \<Rightarrow>
                 (case open_read ev s1 (os_path_join (HOME_DIR ev) ''.zeroTierOneAuthToken'') of
                    (Inl e, s2) \<Rightarrow> (Inl e, s2)
                  | (Inr txt, s2) \<Rightarrow> (Inr (py_strip txt), s2\<lparr>authtoken := Some (py_strip txt)\<rparr>))
             | (False, s1) \<Rightarrow>
                 (case open_read ev s1 (AUTH_FILE ev) of
                    (Inl e, s2) \<Rightarrow> (Inl e, s2)
                  | (Inr txt, s2) \<Rightarrow> (Inr (py_strip txt), s2\<lparr>authtoken := Some (py_strip txt)\<rparr>))))"

text \<open>
  \<open>check_output(argv)\<close> and \<open>check_call(argv)\<close>: start the subprocess, raise
  \<open>CalledProcessError\<close> on a return code other than 0. \<open>check_call\<close> captures no output.
\<close>

definition check_output :: "env \<Rightarrow> state \<Rightarrow> string list \<Rightarrow> (error + string) \<times> state" where
  "check_output ev s argv =
     (case run ev (trace s) argv of
        Missing \<Rightarrow> (Inl FileNotFoundError, s\<lparr>trace := trace s @ [Exec argv]\<rparr>)
      | Exited rc out \<Rightarrow>
          if rc = 0 then (Inr out, s\<lparr>trace := trace s @ [Exec argv]\<rparr>)
          else (Inl (CalledProcessError argv rc out), s\<lparr>trace := trace s @ [Exec argv]\<rparr>))"

definition check_call :: "env \<Rightarrow> state \<Rightarrow> string list \<Rightarrow> (error + unit) \<times> state" where
  "check_call ev s argv =
     (case run ev (trace s) argv of
        Missing \<Rightarrow> (Inl FileNotFoundError, s\<lparr>trace := trace s @ [Exec argv]\<rparr>)
      | Exited rc out \<Rightarrow>
          if rc = 0 then (Inr (), s\<lparr>trace := trace s @ [Exec argv]\<rparr>)
          else (Inl (CalledProcessError argv rc []), s\<lparr>trace := trace s @ [Exec argv]\<rparr>))"

abbreviation NL :: string where "NL \<equiv> [CHR 0x0A]"
abbreviation DQ :: string where "DQ \<equiv> [CHR 0x22]"

definition get_status :: "env \<Rightarrow> state \<Rightarrow> (error + string list) \<times> state" where
  "get_status ev s =
     (case get_token ev s of
        (Inl e, s1) \<Rightarrow> (Inl e, s1)
      | (Inr tok, s1) \<Rightarrow>
          (case check_output ev s1 [''zerotier-cli'', ''-T'' @ tok, ''status''] of
             (Inl e, s2) \<Rightarrow> (Inl e, s2)
           | (Inr out, s2) \<Rightarrow> (Inr (py_split out), s2)))"

definition manage_service :: "env \<Rightarrow> state \<Rightarrow> string \<Rightarrow> (error + unit) \<times> state" where
  "manage_service ev s action =
     (case check_output ev s [''systemctl'', action, ''zerotier-one''] of
        (Inr out, s1) \<Rightarrow> (Inr (), s1)
      | (Inl e, s1) \<Rightarrow>
          (case e of
             CalledProcessError cmd rc out \<Rightarrow>
               (Inr (), s1\<lparr>trace := trace s1 @
                  [Warning ''Error''
                     (''Something went wrong: '' @ DQ @ str_CalledProcessError ev cmd rc @ DQ)]\<rparr>)
           | _ \<Rightarrow> (Inl e, s1)))"

subsection \<open>\<open>int(value)\<close> and the decimal text of an integer\<close>

text \<open>
  The values \<open>change_config\<close> can be handed: \<open>None\<close>, a boolean, an integer or a string.
  \<open>int\<close> of a string removes white space from both ends, reads an optional sign and then
  decimal digits in groups joined by single underscores, and refuses more than 4300
  digits, the interpreter's default limit. For \<open>int\<close> the white space is tab, line
  feed, vertical tab, form feed, carriage return, the blank, 0x85 and 0xA0; the
  separators 0x1C..0x1F are none.
\<close>

datatype pyval = PNone | PBool bool | PInt int | PStr string

definition int_max_str_digits :: nat where
  "int_max_str_digits = 4300"

definition is_int_space :: "char \<Rightarrow> bool" where
  "is_int_space c = (c \<in> set [CHR 0x09, CHR 0x0A, CHR 0x0B, CHR 0x0C, CHR 0x0D,
                                CHR 0x20, CHR 0x85, CHR 0xA0])"

definition is_digit :: "char \<Rightarrow> bool" where
  "is_digit c = (c \<in> set ''0123456789'')"

definition digit_val :: "char \<Rightarrow> int" where
  "digit_val c = int (of_char c) - 48"

text \<open>The pieces of a string between its underscores, \<open>cur\<close> being the piece begun.\<close>

fun split_underscore :: "string \<Rightarrow> string \<Rightarrow> string list" where
  "split_underscore [] cur = [cur]"
| "split_underscore (c # cs) cur =
     (if c = CHR ''_'' then cur # split_underscore cs [] else split_underscore cs (cur @ [c]))"

definition decimal :: "string \<Rightarrow> int" where
  "decimal ds = foldl (\<lambda>a c. a * 10 + digit_val c) 0 ds"

definition int_of_str :: "string \<Rightarrow> int option" where
  "int_of_str s =
     (let t = strip_with is_int_space s;
          body = (case t of [] \<Rightarrow> t
                  | c # r \<Rightarrow> if c = CHR ''-'' \<or> c = CHR ''+'' then r else t);
          groups = split_underscore body []
      in if list_all (\<lambda>g. g \<noteq> [] \<and> list_all is_digit g) groups
            \<and> length (concat groups) \<le> int_max_str_digits
         then Some (if t \<noteq> [] \<and> hd t = CHR ''-'' then - decimal (concat groups)
                    else decimal (concat groups))
         else None)"

definition py_int :: "pyval \<Rightarrow> error + int" where
  "py_int v =
     (case v of
        PNone \<Rightarrow> Inl TypeError
      | PBool b \<Rightarrow> Inr (if b then 1 else 0)
      | PInt i \<Rightarrow> Inr i
      | PStr t \<Rightarrow> (case int_of_str t of None \<Rightarrow> Inl ValueError | Some i \<Rightarrow> Inr i))"

fun str_nat :: "nat \<Rightarrow> string" where
  "str_nat n = (if n < 10 then [''0123456789'' ! n]
                else str_nat (n div 10) @ [''0123456789'' ! (n mod 10)])"

declare str_nat.simps [simp del]

definition str_int :: "int \<Rightarrow> string" where
  "str_int i = (if i < 0 then ''-'' @ str_nat (nat (- i)) else str_nat (nat i))"

text \<open>
  An integer inside an f-string: its decimal text, refused with \<open>ValueError\<close> when it has
  more digits than the limit.
\<close>

definition format_int :: "int \<Rightarrow> error + string" where
  "format_int i = (if 10 ^ int_max_str_digits \<le> \<bar>i\<bar> then Inl ValueError else Inr (str_int i))"

definition change_config ::
  "env \<Rightarrow> state \<Rightarrow> string \<Rightarrow> string \<Rightarrow> pyval \<Rightarrow> (error + unit) \<times> state" where
  "change_config ev s network_id config v =
     (case py_int v of
        Inl e \<Rightarrow> (Inl e, s)
      | Inr i \<Rightarrow>
          (case get_token ev s of
             (Inl e, s1) \<Rightarrow> (Inl e, s1)
           | (Inr tok, s1) \<Rightarrow>
               (case format_int i of
                  Inl e \<Rightarrow> (Inl e, s1)
                | Inr txt \<Rightarrow>
                    (case check_output ev s1
                            [''zerotier-cli'', ''-T'' @ tok, ''set'', network_id,
                             config @ ''='' @ txt] of
                       (Inr out, s2) \<Rightarrow> (Inr (), s2)
                     | (Inl e, s2) \<Rightarrow>
                         (case e of
                            CalledProcessError cmd rc out \<Rightarrow>
                              (Inr (), s2\<lparr>trace := trace s2 @
                                 [Warning ''Failed to change config''
                                    (''Error: '' @ DQ @ py_strip out @ DQ)]\<rparr>)
                          | _ \<Rightarrow> (Inl e, s2))))))"

subsection \<open>Networks\<close>

definition get_networks_info :: "env \<Rightarrow> state \<Rightarrow> (error + network list) \<times> state" where
  "get_networks_info ev s =
     (case get_token ev s of
        (Inl e, s1) \<Rightarrow> (Inl e, s1)
      | (Inr tok, s1) \<Rightarrow>
          (case check_output ev s1 [''zerotier-cli'', ''-T'' @ tok, ''-j'', ''listnetworks''] of
             (Inl e, s2) \<Rightarrow> (Inl e, s2)
           | (Inr out, s2) \<Rightarrow>
               (case loads_networks ev out of
                  None \<Rightarrow> (Inl JSONDecodeError, s2)
                | Some nets \<Rightarrow> (Inr nets, s2))))"

text \<open>The loop of \<open>is_on_network\<close>, with the flag \<open>currently_joined\<close> as last argument.\<close>

fun is_on_network_loop :: "network list \<Rightarrow> string \<Rightarrow> bool \<Rightarrow> bool" where
  "is_on_network_loop [] network_id currently_joined = currently_joined"
| "is_on_network_loop (n # ns) network_id currently_joined =
     (if currently_joined then currently_joined
      else is_on_network_loop ns network_id (nwid n = network_id))"

definition is_on_network :: "env \<Rightarrow> state \<Rightarrow> string \<Rightarrow> (error + bool) \<times> state" where
  "is_on_network ev s network_id =
     (case get_networks_info ev s of
        (Inl e, s1) \<Rightarrow> (Inl e, s1)
      | (Inr nets, s1) \<Rightarrow> (Inr (is_on_network_loop nets network_id False), s1))"

text \<open>The handler \<open>except CalledProcessError\<close> of \<open>join_network\<close>.\<close>

definition join_network_except :: "error \<Rightarrow> state \<Rightarrow> (error + bool) \<times> state" where
  "join_network_except e s =
     (case e of
        CalledProcessError cmd rc out \<Rightarrow>
          (Inr False, s\<lparr>trace := trace s @ [Warning APP_NAME ''Invalid network ID'']\<rparr>)
      | _ \<Rightarrow> (Inl e, s))"

definition join_network :: "env \<Rightarrow> state \<Rightarrow> string \<Rightarrow> (error + bool) \<times> state" where
  "join_network ev s network_id =
     (case is_on_network ev s network_id of
        (Inl e, s1) \<Rightarrow> join_network_except e s1
      | (Inr True, s1) \<Rightarrow>
          (Inr False, s1\<lparr>trace := trace s1 @
             [Information APP_NAME ''You are already a member of this network.'']\<rparr>)
      | (Inr False, s1) \<Rightarrow>
          (case get_token ev s1 of
             (Inl e, s2) \<Rightarrow> join_network_except e s2
           | (Inr tok, s2) \<Rightarrow>
               (case check_call ev s2 [''zerotier-cli'', ''-T'' @ tok, ''join'', network_id] of
                  (Inl e, s3) \<Rightarrow> join_network_except e s3
                | (Inr u, s3) \<Rightarrow> (Inr True, s3))))"

subsection \<open>Interfaces\<close>

text \<open>
  The loop of \<open>get_interface_state\<close>: \<open>Some\<close> the state bound at the first entry with the
  name, \<open>None\<close> when the loop ends with the local \<open>state\<close> never assigned.
\<close>

fun find_state :: "iface list \<Rightarrow> string \<Rightarrow> string option" where
  "find_state [] interface = None"
| "find_state (info # rest) interface =
     (if ifname info = interface then Some (operstate info) else find_state rest interface)"

definition get_interface_state :: "env \<Rightarrow> state \<Rightarrow> string \<Rightarrow> (error + string) \<times> state" where
  "get_interface_state ev s interface =
     (case check_output ev s [''ip'', ''--json'', ''address''] of
        (Inl e, s1) \<Rightarrow> (Inl e, s1)
      | (Inr out, s1) \<Rightarrow>
          (case loads_interfaces ev out of
             None \<Rightarrow> (Inl JSONDecodeError, s1)
           | Some interfaceInfo \<Rightarrow>
               (case find_state interfaceInfo interface of
                  None \<Rightarrow> (Inl UnboundLocalError, s1)
                | Some st \<Rightarrow> (Inr st, s1))))"

definition leave_text :: "string \<Rightarrow> string option \<Rightarrow> string" where
  "leave_text networkId networkName =
     ''Are you sure you want to leave '' @ DQ
       @ (case networkName of None \<Rightarrow> ''None'' | Some n \<Rightarrow> n) @ DQ @ NL
       @ ''(ID: '' @ networkId @ '')?''"

definition leave_network ::
  "env \<Rightarrow> state \<Rightarrow> string \<Rightarrow> string option \<Rightarrow> (error + bool) \<times> state" where
  "leave_network ev s networkId networkName =
     (let answer = question ev (trace s) ''Leave Network'' (leave_text networkId networkName);
          s0 = s\<lparr>trace := trace s @
                  [Question ''Leave Network'' (leave_text networkId networkName)]\<rparr>
      in if answer then
           (case get_token ev s0 of
              (Inl e, s1) \<Rightarrow> (Inl e, s1)
            | (Inr tok, s1) \<Rightarrow>
                (case check_call ev s1 [''zerotier-cli'', ''-T'' @ tok, ''leave'', networkId] of
                   (Inr u, s2) \<Rightarrow> (Inr True, s2)
                 | (Inl e, s2) \<Rightarrow>
                     (case e of
                        CalledProcessError cmd rc out \<Rightarrow>
                          (Inr False, s2\<lparr>trace := trace s2 @
                             [Warning APP_NAME ''Failed to leave network.'']\<rparr>)
                      | _ \<Rightarrow> (Inl e, s2))))
         else (Inr False, s0))"

text \<open>The two branches of \<open>toggle_interface\<close> run the same call with the last word changed.\<close>

definition toggle_call :: "env \<Rightarrow> state \<Rightarrow> string \<Rightarrow> string \<Rightarrow> (error + bool) \<times> state" where
  "toggle_call ev s interfaceName direction =
     (case check_call ev s [''pkexec'', ''ip'', ''link'', ''set'', interfaceName, direction] of
        (Inr u, s1) \<Rightarrow> (Inr True, s1)
      | (Inl e, s1) \<Rightarrow>
          (case e of
             CalledProcessError cmd rc out \<Rightarrow> (Inr False, s1)
           | _ \<Rightarrow> (Inl e, s1)))"

definition toggle_interface :: "env \<Rightarrow> state \<Rightarrow> string \<Rightarrow> (error + bool) \<times> state" where
  "toggle_interface ev s interfaceName =
     (case get_interface_state ev s interfaceName of
        (Inl e, s1) \<Rightarrow> (Inl e, s1)
      | (Inr st, s1) \<Rightarrow>
          if py_lower st = ''down'' then toggle_call ev s1 interfaceName ''up''
          else toggle_call ev s1 interfaceName ''down'')"

subsection \<open>Setting up the token at start\<close>

definition start_service_text :: string where
  "start_service_text =
     ''No authtoken.secret file has been found in'' @ NL
     @ DQ @ ''/var/lib/zerotier-one'' @ DQ @ ''. This usually means you'' @ NL
     @ ''never started the zerotier-one service.'' @ NL
     @ ''Do you wish to start it now?'' @ NL"

definition missing_token_text :: "env \<Rightarrow> string" where
  "missing_token_text ev =
     ''This user doesn't have ZeroTier-One Authtoken file.'' @ NL
     @ ''Choosing '' @ [CHR 0xAB] @ ''Yes'' @ [CHR 0xBB] @ '' will ask you for password to'' @ NL
     @ ''copy the authtoken.secret from'' @ NL
     @ ''/var/lib/zerotier-one/'' @ NL
     @ ''to'' @ NL
     @ CONFIG_DIR ev @ NL
     @ NL
     @ [CHR 0xAB] @ ''No'' @ [CHR 0xBB] @ '' will exit the program.'' @ NL"

definition copy_script :: "env \<Rightarrow> string" where
  "copy_script ev =
     NL @ ''          cp /var/lib/zerotier-one/authtoken.secret '' @ AUTH_FILE ev @ '' &&'' @ NL
     @ ''          chown '' @ str_nat (uid ev) @ '':'' @ str_nat (gid ev) @ '' '' @ AUTH_FILE ev"

text \<open>
  \<open>setup_auth_token\<close> from its second statement on (\<open>if os.getuid() == 0\<close>); the
  directory made by \<open>os.makedirs\<close> is logged only.
\<close>

definition setup_auth_token_local :: "env \<Rightarrow> state \<Rightarrow> (error + unit) \<times> state" where
  "setup_auth_token_local ev s =
     (if uid ev = 0 then (Inr (), s)
      else
        (case isfile ev s (AUTH_FILE ev) of
           (True, s1) \<Rightarrow> (Inr (), s1)
         | (False, s1) \<Rightarrow>
             (let s2 = s1\<lparr>trace := trace s1 @ [Makedirs (CONFIG_DIR ev)]\<rparr>;
                  answer = question ev (trace s2) ''Missing Local Authtoken'' (missing_token_text ev);
                  s3 = s2\<lparr>trace := trace s2 @
                          [Question ''Missing Local Authtoken'' (missing_token_text ev)]\<rparr>
              in if answer then
                   (case check_output ev s3 [''pkexec'', ''bash'', ''-c'', copy_script ev] of
                      (Inr out, s4) \<Rightarrow> (Inr (), s4)
                    | (Inl e, s4) \<Rightarrow>
                        (case e of
                           CalledProcessError cmd rc out \<Rightarrow>
                             if rc = 127 then (Inl (ProcessExit 1), s4)
                             else (Inl (ProcessExit 1), s4\<lparr>trace := trace s4 @
                                     [Critical ''Operation Failed''
                                        (''Failed to copy authtoken.secret.'' @ NL @ NL
                                         @ ''Command Output:'' @ NL @ '' '' @ py_strip out)]\<rparr>)
                         | _ \<Rightarrow> (Inl e, s4)))
                 else (Inl (ProcessExit 1), s3))))"

definition setup_auth_token :: "env \<Rightarrow> state \<Rightarrow> (error + unit) \<times> state" where
  "setup_auth_token ev s =
     (case isfile ev s SYSTEM_SECRET of
        (True, s1) \<Rightarrow> setup_auth_token_local ev s1
      | (False, s1) \<Rightarrow>
          (let allowed_to_start_service =
                 question ev (trace s1) ''No authtoken found'' start_service_text;
               s2 = s1\<lparr>trace := trace s1 @ [Question ''No authtoken found'' start_service_text]\<rparr>
           in if allowed_to_start_service then
                (case manage_service ev s2 ''start'' of
                   (Inl e, s3) \<Rightarrow> (Inl e, s3)
                 | (Inr u, s3) \<Rightarrow> setup_auth_token_local ev s3)
              else (Inl (ProcessExit 0), s2)))"

section \<open>Dialogs and the main window\<close>

definition about_text :: "string \<Rightarrow> string" where
  "about_text v =
     NL @ ''      <b>ZeroTier Version '' @ v @ ''<br>'' @ NL
     @ ''      '' @ APP_NAME @ '' Version '' @ APP_VERSION @ ''</b><br>'' @ NL
     @ ''      Qt front-end for ZeroTier One<br>'' @ NL
     @ ''      Created by Vsevolod '' @ [CHR 0xAB] @ ''Damglador'' @ [CHR 0xBB]
     @ '' Stopchanskyi<br>'' @ NL
     @ ''      Based on zerotier-gui by Tom'' @ [CHR 0xE1] @ ''s Ralph<br>'' @ NL
     @ ''      Licensed under GPL-3.0<br>'' @ NL
     @ ''      <a href='' @ DQ @ ''https://github.com/Damglador/zerotier-qt'' @ DQ @ ''>'' @ NL
     @ ''          https://github.com/Damglador/zerotier-qt'' @ NL
     @ ''      </a>'' @ NL
     @ ''      ''"

definition about_window :: "env \<Rightarrow> state \<Rightarrow> (error + unit) \<times> state" where
  "about_window ev s =
     (case get_status ev s of
        (Inl e, s1) \<Rightarrow> (Inl e, s1)
      | (Inr st, s1) \<Rightarrow>
          (case py_index st 3 of
             Inl e \<Rightarrow> (Inl e, s1)
           | Inr v \<Rightarrow> (Inr (), s1\<lparr>trace := trace s1 @ [About ''About'' (about_text v)]\<rparr>)))"

text \<open>
  The first loop of \<open>refresh_networks\<close>: one interface read per network, the tuple of the
  network appended to \<open>networks\<close>. A tuple is kept as its four texts and the flag \<open>isDown\<close>.
\<close>

fun refresh_rows ::
  "env \<Rightarrow> state \<Rightarrow> network list \<Rightarrow> (string list \<times> bool) list
     \<Rightarrow> (error + (string list \<times> bool) list) \<times> state" where
  "refresh_rows ev s [] networks = (Inr networks, s)"
| "refresh_rows ev s (n # ns) networks =
     (case get_interface_state ev s (portDeviceName n) of
        (Inl e, s1) \<Rightarrow> (Inl e, s1)
      | (Inr interfaceState, s1) \<Rightarrow>
          refresh_rows ev s1 ns
            (networks @
               [([netid n, (if name n \<noteq> [] then name n else ''Unknown Name''),
                  status n, portDeviceName n],
                 py_lower interfaceState = ''down'')]))"

definition refresh_networks :: "env \<Rightarrow> state \<Rightarrow> (error + unit) \<times> state" where
  "refresh_networks ev s =
     (case get_status ev s of
        (Inl e, s1) \<Rightarrow> (Inl e, s1)
      | (Inr st, s1) \<Rightarrow>
          (case py_index st 2 of
             Inl e \<Rightarrow> (Inl e, s1)
           | Inr node \<Rightarrow>
               (case py_index st 4 of
                  Inl e \<Rightarrow> (Inl e, s1)
                | Inr online \<Rightarrow>
                    (case get_networks_info ev
                            (s1\<lparr>statusLabel := ''Your ID: '' @ node @ '' Status: '' @ online,
                                networksTable := []\<rparr>) of
                       (Inl e, s2) \<Rightarrow> (Inl e, s2)
                     | (Inr networkData, s2) \<Rightarrow>
                         (case refresh_rows ev s2 networkData [] of
                            (Inl e, s3) \<Rightarrow> (Inl e, s3)
                          | (Inr networks, s3) \<Rightarrow>
                              (Inr (), s3\<lparr>networksTable := networks\<rparr>))))))"

section \<open>Sample environments\<close>

text \<open>
  A user session on which the theorems below are run: user 1000 in the home directory,
  the system secret and the copy in the configuration directory in place, two joined
  networks, both devices in the interface table, every question answered Yes.
\<close>

definition initial_state :: state where
  "initial_state = \<lparr>authtoken = None, statusLabel = [], networksTable = [], trace = []\<rparr>"

definition sample_networks :: "network list" where
  "sample_networks =
     [\<lparr>nwid = ''8056c2e21c000001'', netid = ''8056c2e21c000001'', name = ''lab'',
        status = ''OK'', portDeviceName = ''ztabc''\<rparr>,
      \<lparr>nwid = ''1d71939404912b40'', netid = ''1d71939404912b40'', name = [],
        status = ''OK'', portDeviceName = ''ztdef''\<rparr>]"

definition networks_json :: string where
  \<open>networks_json =
     ''[{"nwid":"8056c2e21c000001","id":"8056c2e21c000001","name":"lab","status":"OK","portDeviceName":"ztabc"},''
     @ ''{"nwid":"1d71939404912b40","id":"1d71939404912b40","name":"","status":"OK","portDeviceName":"ztdef"}]''\<close>

definition sample_interfaces :: "iface list" where
  "sample_interfaces =
     [\<lparr>ifname = ''lo'', operstate = ''UNKNOWN''\<rparr>,
      \<lparr>ifname = ''ztabc'', operstate = ''DOWN''\<rparr>,
      \<lparr>ifname = ''ztdef'', operstate = ''UNKNOWN''\<rparr>]"

definition interfaces_json :: string where
  \<open>interfaces_json =
     ''[{"ifname":"lo","operstate":"UNKNOWN"},{"ifname":"ztabc","operstate":"DOWN"},''
     @ ''{"ifname":"ztdef","operstate":"UNKNOWN"}]''\<close>

text \<open>The same table after the device of the second network has gone.\<close>

definition partial_interfaces_json :: string where
  \<open>partial_interfaces_json =
     ''[{"ifname":"lo","operstate":"UNKNOWN"},{"ifname":"ztabc","operstate":"DOWN"}]''\<close>

definition table ::
  "(string list \<times> proc_result) list \<Rightarrow> event list \<Rightarrow> string list \<Rightarrow> proc_result" where
  "table tbl h argv = (case map_of tbl argv of None \<Rightarrow> Missing | Some r \<Rightarrow> r)"

definition sample_procs :: "(string list \<times> proc_result) list" where
  "sample_procs =
     [([''zerotier-cli'', ''-TtokB'', ''status''],
         Exited 0 (''200 info abcdef1234 1.10.1 ONLINE'' @ NL)),
      ([''zerotier-cli'', ''-TtokB'', ''-j'', ''listnetworks''], Exited 0 networks_json),
      ([''ip'', ''--json'', ''address''], Exited 0 interfaces_json),
      ([''zerotier-cli'', ''-TtokB'', ''join'', ''a09acf0233e4b070''],
         Exited 0 (''200 join OK'' @ NL)),
      ([''zerotier-cli'', ''-TtokB'', ''leave'', ''8056c2e21c000001''],
         Exited 0 (''200 leave OK'' @ NL)),
      ([''zerotier-cli'', ''-TtokB'', ''set'', ''8056c2e21c000001'', ''allowDNS=1''],
         Exited 0 (''allowDNS=1'' @ NL)),
      ([''zerotier-cli'', ''-TtokB'', ''set'', ''8056c2e21c000001'', ''allowDNS=10''],
         Exited 0 (''allowDNS=10'' @ NL)),
      ([''zerotier-cli'', ''-TtokB'', ''set'', ''8056c2e21c000001'', ''allowGlobal=0''],
         Exited 1 (''ERROR: setting not allowed'' @ NL)),
      ([''pkexec'', ''ip'', ''link'', ''set'', ''ztabc'', ''up''], Exited 0 []),
      ([''pkexec'', ''ip'', ''link'', ''set'', ''ztdef'', ''down''], Exited 0 [])]"

definition sample_env :: env where
  "sample_env =
     \<lparr>uid = 1000, gid = 1000, cwd = ''/home/u'', HOME_DIR = ''/home/u'',
      GenericConfigLocation = ''/home/u/.config'',
      files = map_of [(''/var/lib/zerotier-one/authtoken.secret'', ''tokS'' @ NL),
                      (''/home/u/.config/zerotier-qt/authtoken.secret'', ''tokB'' @ NL)],
      run = table sample_procs,
      question = (\<lambda>h title text. True),
      loads_networks = map_of [(networks_json, sample_networks)],
      loads_interfaces =
        map_of [(interfaces_json, sample_interfaces),
                (partial_interfaces_json, butlast sample_interfaces)],
      str_CalledProcessError = (\<lambda>cmd rc. ''Command returned non-zero exit status'')\<rparr>"

text \<open>
  A session started outside the home directory, with the dotfile in the home directory
  next to the copy in the configuration directory; and the sample session run as root.
\<close>

definition dotfile_env :: env where
  "dotfile_env =
     sample_env\<lparr>cwd := ''/tmp'',
       files := map_of [(''/home/u/.zeroTierOneAuthToken'', ''tokA'' @ NL),
                        (''/home/u/.config/zerotier-qt/authtoken.secret'', ''tokB'' @ NL)]\<rparr>"

definition root_env :: env where
  "root_env = sample_env\<lparr>uid := 0\<rparr>"

text \<open>The state after the token has been resolved in the sample session.\<close>

definition resolved_state :: state where
  "resolved_state = initial_state\<lparr>authtoken := Some ''tokB''\<rparr>"

text \<open>The sample session with every question answered No.\<close>

definition declining_env :: env where
  "declining_env = sample_env\<lparr>question := (\<lambda>h title text. False)\<rparr>"

text \<open>The sample session where the daemon prints three words of status only.\<close>

definition short_status_env :: env where
  "short_status_env =
     sample_env\<lparr>run := table (([''zerotier-cli'', ''-TtokB'', ''status''],
                                   Exited 0 (''200 info abcdef1234'' @ NL)) # sample_procs)\<rparr>"

text \<open>
  The sample session where the daemon separates the words of its status by a next-line
  character and a no-break space.
\<close>

definition latin_status_env :: env where
  "latin_status_env =
     sample_env\<lparr>run := table (([''zerotier-cli'', ''-TtokB'', ''status''],
                                   Exited 0 (''200 info abcdef1234'' @ [CHR 0x85] @ ''1.10.1''
                                             @ [CHR 0xA0] @ ''ONLINE'' @ NL)) # sample_procs)\<rparr>"

text \<open>The sample session where the kernel reports the state of the first device as \<open>Down\<close>.\<close>

definition mixed_interfaces_json :: string where
  \<open>mixed_interfaces_json = ''[{"ifname":"ztabc","operstate":"Down"}]''\<close>

definition mixed_case_env :: env where
  "mixed_case_env =
     sample_env\<lparr>run := table (([''ip'', ''--json'', ''address''],
                                   Exited 0 mixed_interfaces_json) # sample_procs),
       loads_interfaces :=
         map_of [(mixed_interfaces_json, [\<lparr>ifname = ''ztabc'', operstate = ''Down''\<rparr>])]\<rparr>"

text \<open>
  The sample session at the moment the device of the second network is missing from
  the interface table.
\<close>

definition vanished_env :: env where
  "vanished_env =
     sample_env\<lparr>run := table (([''ip'', ''--json'', ''address''],
                                   Exited 0 partial_interfaces_json) # sample_procs)\<rparr>"

text \<open>
  The sample session before the local copy of the token exists, where every call of
  \<open>pkexec\<close> made by the program ends with the given return code and output.
\<close>

definition pkexec_env :: "int \<Rightarrow> string \<Rightarrow> env" where
  "pkexec_env rc out =
     sample_env\<lparr>files := map_of [(''/var/lib/zerotier-one/authtoken.secret'', ''tokS'' @ NL)],
       run := table (([''pkexec'', ''bash'', ''-c'', copy_script sample_env], Exited rc out)
                     # ([''pkexec'', ''ip'', ''link'', ''set'', ''ztabc'', ''up''], Exited rc out)
                     # sample_procs)\<rparr>"

section \<open>Properties of the credential resolver\<close>

lemmas fs_defs = isfile_def open_read_def abspath_def os_path_join_def AUTH_FILE_def
  CONFIG_DIR_def APP_ID_def SYSTEM_SECRET_def py_strip_def strip_with_def is_space_def

lemma get_token_cached: "authtoken s = Some t \<Longrightarrow> get_token ev s = (Inr t, s)"
  by (simp add: get_token_def)

lemma get_token_sets: "get_token ev s = (Inr t, s1) \<Longrightarrow> authtoken s1 = Some t"
  by (auto simp: get_token_def isfile_def open_read_def
           split: option.splits if_splits bool.splits)

lemma sample_token:
  "get_token sample_env initial_state =
     (Inr ''tokB'', initial_state\<lparr>authtoken := Some ''tokB'',
        trace := [IsFile ''/home/u/.zeroTierOneAuthToken'',
                  Open ''/home/u/.config/zerotier-qt/authtoken.secret'']\<rparr>)"
  by (simp add: get_token_def sample_env_def initial_state_def fs_defs)

text \<open>
  C1 (the code departs from the claim). The claim reads the token from the dotfile of the
  home directory whenever that file is present. \<open>get_token\<close> probes the bare name
  \<open>.zeroTierOneAuthToken\<close>, which the system resolves against the working directory, and
  opens the file of that name in the home directory. Started in \<open>/tmp\<close> with the dotfile
  \<open>tokA\<close> in the home directory and the copy \<open>tokB\<close> in the configuration directory, it
  probes \<open>/tmp/.zeroTierOneAuthToken\<close>, never opens the dotfile and returns \<open>tokB\<close>; the
  same files with the home directory as working directory give \<open>tokA\<close>.
\<close>

theorem get_token_probes_working_directory:
  "get_token dotfile_env initial_state =
     (Inr ''tokB'', initial_state\<lparr>authtoken := Some ''tokB'',
        trace := [IsFile ''/tmp/.zeroTierOneAuthToken'',
                  Open ''/home/u/.config/zerotier-qt/authtoken.secret'']\<rparr>)
   \<and> files dotfile_env (os_path_join (HOME_DIR dotfile_env) ''.zeroTierOneAuthToken'')
       = Some (''tokA'' @ NL)
   \<and> fst (get_token (dotfile_env\<lparr>cwd := ''/home/u''\<rparr>) initial_state) = Inr ''tokA''"
  by (simp add: get_token_def dotfile_env_def sample_env_def initial_state_def fs_defs)

lemma check_output_token:
  "check_output ev s argv = (r, s1) \<Longrightarrow> authtoken s1 = authtoken s"
  by (auto simp: check_output_def split: proc_result.splits if_splits)

lemma check_call_token:
  "check_call ev s argv = (r, s1) \<Longrightarrow> authtoken s1 = authtoken s"
  by (auto simp: check_call_def split: proc_result.splits if_splits)

lemma get_token_keeps:
  "get_token ev s = (r, s1) \<Longrightarrow> authtoken s \<noteq> None \<longrightarrow> authtoken s1 = authtoken s"
  by (auto simp: get_token_def)

lemma get_status_keeps:
  "get_status ev s = (r, s1) \<Longrightarrow> authtoken s \<noteq> None \<longrightarrow> authtoken s1 = authtoken s"
  by (auto simp: get_status_def split: prod.splits sum.splits
           dest!: check_output_token get_token_keeps)

lemma manage_service_token:
  "manage_service ev s a = (r, s1) \<Longrightarrow> authtoken s1 = authtoken s"
  by (auto simp: manage_service_def split: prod.splits sum.splits error.splits
           dest!: check_output_token)

lemma change_config_keeps:
  "change_config ev s n c v = (r, s1) \<Longrightarrow> authtoken s \<noteq> None \<longrightarrow> authtoken s1 = authtoken s"
  by (auto simp: change_config_def split: prod.splits sum.splits error.splits
           dest!: check_output_token get_token_keeps)

lemma get_networks_info_keeps:
  "get_networks_info ev s = (r, s1) \<Longrightarrow> authtoken s \<noteq> None \<longrightarrow> authtoken s1 = authtoken s"
  by (auto simp: get_networks_info_def
           split: prod.splits sum.splits option.splits
           dest!: check_output_token get_token_keeps)

lemma join_network_keeps:
  "join_network ev s n = (r, s1) \<Longrightarrow> authtoken s \<noteq> None \<longrightarrow> authtoken s1 = authtoken s"
  by (auto simp: join_network_def is_on_network_def join_network_except_def
           split: prod.splits sum.splits error.splits bool.splits
           dest!: check_call_token get_networks_info_keeps get_token_keeps)

lemma get_interface_state_token:
  "get_interface_state ev s i = (r, s1) \<Longrightarrow> authtoken s1 = authtoken s"
  by (auto simp: get_interface_state_def split: prod.splits sum.splits option.splits
           dest!: check_output_token)

lemma leave_network_keeps:
  "leave_network ev s n nm = (r, s1) \<Longrightarrow> authtoken s \<noteq> None \<longrightarrow> authtoken s1 = authtoken s"
  by (auto simp: leave_network_def Let_def
           split: prod.splits sum.splits error.splits if_splits
           dest!: check_call_token get_token_keeps)

lemma toggle_interface_token:
  "toggle_interface ev s i = (r, s1) \<Longrightarrow> authtoken s1 = authtoken s"
  by (auto simp: toggle_interface_def toggle_call_def
           split: prod.splits sum.splits error.splits if_splits
           dest!: check_call_token get_interface_state_token)

lemma about_window_keeps:
  "about_window ev s = (r, s1) \<Longrightarrow> authtoken s \<noteq> None \<longrightarrow> authtoken s1 = authtoken s"
  by (auto simp: about_window_def split: prod.splits sum.splits
           dest!: get_status_keeps)

lemma refresh_rows_token:
  "refresh_rows ev s ns acc = (r, s1) \<Longrightarrow> authtoken s1 = authtoken s"
proof (induction ns arbitrary: s acc)
  case Nil
  then show ?case by simp
next
  case (Cons n ns)
  obtain q s' where step: "get_interface_state ev s (portDeviceName n) = (q, s')"
    by (cases "get_interface_state ev s (portDeviceName n)")
  have keep: "authtoken s' = authtoken s"
    using step by (rule get_interface_state_token)
  show ?case
  proof (cases q)
    case (Inl e)
    with Cons.prems step keep show ?thesis by simp
  next
    case (Inr st)
    with Cons.prems step have "refresh_rows ev s' ns
        (acc @ [([netid n, (if name n \<noteq> [] then name n else ''Unknown Name''),
                  status n, portDeviceName n], py_lower st = ''down'')]) = (r, s1)"
      by simp
    then have "authtoken s1 = authtoken s'" by (rule Cons.IH)
    with keep show ?thesis by simp
  qed
qed

lemma refresh_networks_keeps:
  "refresh_networks ev s = (r, s1) \<Longrightarrow> authtoken s \<noteq> None \<longrightarrow> authtoken s1 = authtoken s"
  by (auto simp: refresh_networks_def split: prod.splits sum.splits
           dest!: refresh_rows_token get_status_keeps get_networks_info_keeps)

lemma setup_auth_token_local_token:
  "setup_auth_token_local ev s = (r, s1) \<Longrightarrow> authtoken s1 = authtoken s"
  by (auto simp: setup_auth_token_local_def isfile_def Let_def
           split: prod.splits sum.splits error.splits if_splits bool.splits
           dest!: check_output_token)

lemma setup_auth_token_token:
  "setup_auth_token ev s = (r, s1) \<Longrightarrow> authtoken s1 = authtoken s"
  by (auto simp: setup_auth_token_def isfile_def Let_def
           split: prod.splits sum.splits if_splits bool.splits
           dest!: setup_auth_token_local_token manage_service_token)

text \<open>
  C7. Once a call of \<open>get_token\<close> has returned a token, the global holds it. From then
  on, in every state that holds it, a call of \<open>get_token\<close> returns that token and leaves
  the state as it was: no event is logged, so no file is probed or opened, whatever the
  environment has become. No function of the controller or of the main window changes
  the global once it is set.
\<close>

theorem get_token_memoized:
  "get_token ev s = (Inr t, s1) \<Longrightarrow>
     authtoken s1 = Some t \<and>
     (\<forall>ev2 s2. authtoken s2 = Some t \<longrightarrow>
        get_token ev2 s2 = (Inr t, s2) \<and>
        authtoken (snd (get_status ev2 s2)) = Some t \<and>
        authtoken (snd (manage_service ev2 s2 action)) = Some t \<and>
        authtoken (snd (change_config ev2 s2 network_id config v)) = Some t \<and>
        authtoken (snd (join_network ev2 s2 network_id)) = Some t \<and>
        authtoken (snd (leave_network ev2 s2 network_id networkName)) = Some t \<and>
        authtoken (snd (toggle_interface ev2 s2 interfaceName)) = Some t \<and>
        authtoken (snd (setup_auth_token ev2 s2)) = Some t \<and>
        authtoken (snd (about_window ev2 s2)) = Some t \<and>
        authtoken (snd (refresh_networks ev2 s2)) = Some t)"
proof -
  assume first: "get_token ev s = (Inr t, s1)"
  have held: "authtoken s1 = Some t"
    using first by (rule get_token_sets)
  have later: "get_token ev2 s2 = (Inr t, s2) \<and>
        authtoken (snd (get_status ev2 s2)) = Some t \<and>
        authtoken (snd (manage_service ev2 s2 action)) = Some t \<and>
        authtoken (snd (change_config ev2 s2 network_id config v)) = Some t \<and>
        authtoken (snd (join_network ev2 s2 network_id)) = Some t \<and>
        authtoken (snd (leave_network ev2 s2 network_id networkName)) = Some t \<and>
        authtoken (snd (toggle_interface ev2 s2 interfaceName)) = Some t \<and>
        authtoken (snd (setup_auth_token ev2 s2)) = Some t \<and>
        authtoken (snd (about_window ev2 s2)) = Some t \<and>
        authtoken (snd (refresh_networks ev2 s2)) = Some t"
    if tok: "authtoken s2 = Some t" for ev2 s2
    using tok
      get_status_keeps [OF prod.collapse [symmetric], where ev = ev2 and s = s2]
      manage_service_token [OF prod.collapse [symmetric], where ev = ev2 and s = s2 and a = action]
      change_config_keeps [OF prod.collapse [symmetric],
        where ev = ev2 and s = s2 and n = network_id and c = config and v = v]
      join_network_keeps [OF prod.collapse [symmetric], where ev = ev2 and s = s2 and n = network_id]
      leave_network_keeps [OF prod.collapse [symmetric],
        where ev = ev2 and s = s2 and n = network_id and nm = networkName]
      toggle_interface_token [OF prod.collapse [symmetric],
        where ev = ev2 and s = s2 and i = interfaceName]
      setup_auth_token_token [OF prod.collapse [symmetric], where ev = ev2 and s = s2]
      about_window_keeps [OF prod.collapse [symmetric], where ev = ev2 and s = s2]
      refresh_networks_keeps [OF prod.collapse [symmetric], where ev = ev2 and s = s2]
    by (simp add: get_token_cached)
  show ?thesis
    using held later by blast
qed

theorem get_token_memoized_witness:
  "get_token sample_env initial_state =
     (Inr ''tokB'', initial_state\<lparr>authtoken := Some ''tokB'',
        trace := [IsFile ''/home/u/.zeroTierOneAuthToken'',
                  Open ''/home/u/.config/zerotier-qt/authtoken.secret'']\<rparr>)
   \<and> get_token root_env
         (initial_state\<lparr>authtoken := Some ''tokB'',
            trace := [IsFile ''/home/u/.zeroTierOneAuthToken'',
                      Open ''/home/u/.config/zerotier-qt/authtoken.secret'']\<rparr>)
       = (Inr ''tokB'', initial_state\<lparr>authtoken := Some ''tokB'',
            trace := [IsFile ''/home/u/.zeroTierOneAuthToken'',
                      Open ''/home/u/.config/zerotier-qt/authtoken.secret'']\<rparr>)"
  using get_token_memoized [OF sample_token] sample_token by simp

section \<open>Properties of the daemon client\<close>

lemma check_output_exited:
  "run ev (trace s) argv = Exited rc out \<Longrightarrow>
   check_output ev s argv =
     ((if rc = 0 then Inr out else Inl (CalledProcessError argv rc out)),
      s\<lparr>trace := trace s @ [Exec argv]\<rparr>)"
  by (simp add: check_output_def)

lemma check_call_exited:
  "run ev (trace s) argv = Exited rc out \<Longrightarrow>
   check_call ev s argv =
     ((if rc = 0 then Inr () else Inl (CalledProcessError argv rc [])),
      s\<lparr>trace := trace s @ [Exec argv]\<rparr>)"
  by (simp add: check_call_def)

lemma str_int_samples: "str_int 1 = ''1''" "str_int 0 = ''0''"
  by code_simp+

lemma sample_run:
  "run sample_env h argv = table sample_procs h argv"
  by (simp add: sample_env_def)

lemma sample_loads_networks: "loads_networks sample_env networks_json = Some sample_networks"
  by (simp add: sample_env_def)

lemma resolved_token: "authtoken resolved_state = Some ''tokB''"
  by (simp add: resolved_state_def initial_state_def)

lemma resolved_trace: "trace resolved_state = []"
  by (simp add: resolved_state_def initial_state_def)

lemma sample_listnetworks:
  "run sample_env h [''zerotier-cli'', ''-T'' @ ''tokB'', ''-j'', ''listnetworks'']
     = Exited 0 networks_json"
  by (simp add: sample_run table_def sample_procs_def)

subsection \<open>\<open>int\<close> of a string and the decimal text\<close>

lemma strip_with_decompose:
  "s = takeWhile P s @ strip_with P s @ rev (takeWhile P (rev (dropWhile P s)))"
proof -
  have "rev (dropWhile P s) =
          takeWhile P (rev (dropWhile P s)) @ dropWhile P (rev (dropWhile P s))"
    by simp
  then have "dropWhile P s =
          rev (dropWhile P (rev (dropWhile P s))) @ rev (takeWhile P (rev (dropWhile P s)))"
    by (metis rev_append rev_rev_ident)
  then have "takeWhile P s @ dropWhile P s =
          takeWhile P s @ strip_with P s @ rev (takeWhile P (rev (dropWhile P s)))"
    by (simp add: strip_with_def)
  then show ?thesis by simp
qed

lemma strip_with_core:
  assumes "\<forall>c\<in>set lead. P c" and "\<forall>c\<in>set trail. P c"
    and "core \<noteq> []" and "\<not> P (hd core)" and "\<not> P (last core)"
  shows "strip_with P (lead @ core @ trail) = core"
proof -
  obtain x xs where core: "core = x # xs" using assms(3) by (cases core) auto
  have front: "dropWhile P (lead @ core @ trail) = core @ trail"
    using assms(1,4) core by (simp add: dropWhile_append3)
  obtain ys y where core2: "core = ys @ [y]" using assms(3) by (cases core rule: rev_cases) auto
  have "rev (core @ trail) = rev trail @ y # rev ys"
    using core2 by simp
  moreover have "\<not> P y" using assms(5) core2 by simp
  ultimately have "dropWhile P (rev (core @ trail)) = y # rev ys"
    using assms(2) by (simp add: dropWhile_append3)
  then show ?thesis
    using front core2 by (simp add: strip_with_def)
qed

lemma split_underscore_join:
  "\<exists>g gs. split_underscore body cur = g # gs \<and>
           cur @ body = g @ concat (map ((#) CHR ''_'') gs)"
proof (induction body arbitrary: cur)
  case Nil
  then show ?case by simp
next
  case (Cons c cs)
  show ?case
  proof (cases "c = CHR ''_''")
    case True
    obtain g gs where "split_underscore cs [] = g # gs"
      and "[] @ cs = g @ concat (map ((#) CHR ''_'') gs)"
      using Cons.IH [of "[]"] by blast
    then show ?thesis using True by simp
  next
    case False
    obtain g gs where "split_underscore cs (cur @ [c]) = g # gs"
      and "(cur @ [c]) @ cs = g @ concat (map ((#) CHR ''_'') gs)"
      using Cons.IH [of "cur @ [c]"] by blast
    then show ?thesis using False by simp
  qed
qed

lemma split_underscore_walk:
  "CHR ''_'' \<notin> set g \<Longrightarrow> split_underscore (g @ rest) cur = split_underscore rest (cur @ g)"
  by (induction g arbitrary: cur) auto

lemma split_underscore_groups:
  "CHR ''_'' \<notin> set g \<Longrightarrow> \<forall>h\<in>set gs. CHR ''_'' \<notin> set h \<Longrightarrow>
   split_underscore (g @ concat (map ((#) CHR ''_'') gs)) cur = (cur @ g) # gs"
proof (induction gs arbitrary: g cur)
  case Nil
  then show ?case using split_underscore_walk [of g "[]" cur] by simp
next
  case (Cons h hs)
  have "split_underscore (g @ concat (map ((#) CHR ''_'') (h # hs))) cur
          = split_underscore (CHR ''_'' # h @ concat (map ((#) CHR ''_'') hs)) (cur @ g)"
    using Cons.prems(1) split_underscore_walk [of g _ cur] by simp
  also have "\<dots> = (cur @ g) # split_underscore (h @ concat (map ((#) CHR ''_'') hs)) []"
    by simp
  also have "\<dots> = (cur @ g) # ([] @ h) # hs"
    using Cons.IH [of h "[]"] Cons.prems(2) by simp
  finally show ?case by simp
qed

lemma is_int_space_iff:
  "is_int_space c = (c \<in> {CHR 0x09, CHR 0x0A, CHR 0x0B, CHR 0x0C, CHR 0x0D,
                            CHR 0x20, CHR 0x85, CHR 0xA0})"
  by (simp add: is_int_space_def)

lemma digit_not_special:
  "is_digit c \<Longrightarrow> \<not> is_int_space c \<and> c \<noteq> CHR ''_'' \<and> c \<noteq> CHR ''-'' \<and> c \<noteq> CHR ''+''"
  by (auto simp: is_digit_def is_int_space_def)

lemma int_of_str_sound:
  assumes "int_of_str s = Some i"
  shows "\<exists>lead sg g gs trail.
           s = lead @ sg @ g @ concat (map ((#) CHR ''_'') gs) @ trail \<and>
           (\<forall>c\<in>set lead \<union> set trail. is_int_space c) \<and>
           sg \<in> {[], ''+'', ''-''} \<and>
           (\<forall>h\<in>set (g # gs). h \<noteq> [] \<and> (\<forall>c\<in>set h. is_digit c)) \<and>
           length (concat (g # gs)) \<le> int_max_str_digits \<and>
           i = (if sg = ''-'' then - decimal (concat (g # gs)) else decimal (concat (g # gs)))"
proof -
  define t where "t = strip_with is_int_space s"
  define sg where "sg = (case t of [] \<Rightarrow> []
                           | c # r \<Rightarrow> if c = CHR ''-'' \<or> c = CHR ''+'' then [c] else [])"
  define body where "body = (case t of [] \<Rightarrow> t
                  | c # r \<Rightarrow> if c = CHR ''-'' \<or> c = CHR ''+'' then r else t)"
  define lead where "lead = takeWhile is_int_space s"
  define trail where "trail = rev (takeWhile is_int_space (rev (dropWhile is_int_space s)))"
  obtain g gs where groups: "split_underscore body [] = g # gs"
    and joined: "body = g @ concat (map ((#) CHR ''_'') gs)"
    using split_underscore_join [of body "[]"] by auto
  have whole: "s = lead @ t @ trail"
    unfolding lead_def t_def trail_def by (rule strip_with_decompose)
  have parts: "t = sg @ body"
    unfolding sg_def body_def by (cases t) auto
  have signs: "sg \<in> {[], ''+'', ''-''}"
    unfolding sg_def by (cases t) auto
  have minus: "(t \<noteq> [] \<and> hd t = CHR ''-'') = (sg = ''-'')"
    unfolding sg_def by (cases t) auto
  have spaces: "\<forall>c\<in>set lead \<union> set trail. is_int_space c"
    unfolding lead_def trail_def by (auto dest: set_takeWhileD)
  have unfolded: "int_of_str s =
      (if list_all (\<lambda>g. g \<noteq> [] \<and> list_all is_digit g) (split_underscore body [])
            \<and> length (concat (split_underscore body [])) \<le> int_max_str_digits
       then Some (if t \<noteq> [] \<and> hd t = CHR ''-''
                  then - decimal (concat (split_underscore body []))
                  else decimal (concat (split_underscore body [])))
       else None)"
    unfolding int_of_str_def Let_def body_def t_def ..
  have valid: "list_all (\<lambda>g. g \<noteq> [] \<and> list_all is_digit g) (g # gs)
               \<and> length (concat (g # gs)) \<le> int_max_str_digits"
    using assms unfolded groups by (simp split: if_splits)
  have val: "i = (if sg = ''-'' then - decimal (concat (g # gs))
                   else decimal (concat (g # gs)))"
    using assms unfolded groups valid minus by (simp split: if_splits)
  have digits: "\<forall>h\<in>set (g # gs). h \<noteq> [] \<and> (\<forall>c\<in>set h. is_digit c)"
    using valid by (auto simp: list_all_iff)
  have "s = lead @ sg @ g @ concat (map ((#) CHR ''_'') gs) @ trail \<and>
           (\<forall>c\<in>set lead \<union> set trail. is_int_space c) \<and>
           sg \<in> {[], ''+'', ''-''} \<and>
           (\<forall>h\<in>set (g # gs). h \<noteq> [] \<and> (\<forall>c\<in>set h. is_digit c)) \<and>
           length (concat (g # gs)) \<le> int_max_str_digits \<and>
           i = (if sg = ''-'' then - decimal (concat (g # gs)) else decimal (concat (g # gs)))"
    using whole parts joined spaces signs digits valid val by simp
  then show ?thesis by blast
qed

lemma int_of_str_complete:
  assumes "\<forall>c\<in>set lead \<union> set trail. is_int_space c"
    and "sg \<in> {[], ''+'', ''-''}"
    and "\<forall>h\<in>set (g # gs). h \<noteq> [] \<and> (\<forall>c\<in>set h. is_digit c)"
    and "length (concat (g # gs)) \<le> int_max_str_digits"
  shows "int_of_str (lead @ sg @ g @ concat (map ((#) CHR ''_'') gs) @ trail)
           = Some (if sg = ''-'' then - decimal (concat (g # gs)) else decimal (concat (g # gs)))"
proof -
  define body where "body = g @ concat (map ((#) CHR ''_'') gs)"
  define core where "core = sg @ body"
  obtain d ds where g: "g = d # ds" and d: "is_digit d"
    using assms(3) by (cases g) auto
  have body_ne: "body \<noteq> []" and body_hd: "hd body = d"
    unfolding body_def using g by auto
  have last_digit: "is_digit (last body)"
  proof (cases gs rule: rev_cases)
    case Nil
    then show ?thesis unfolding body_def using assms(3) g by (auto simp: last_in_set)
  next
    case (snoc hs h)
    then have h: "h \<noteq> []" "\<forall>c\<in>set h. is_digit c" using assms(3) by auto
    have "last body = last h"
      unfolding body_def using snoc h by simp
    then show ?thesis using h by (auto simp: last_in_set)
  qed
  have core_ne: "core \<noteq> []" unfolding core_def using body_ne by simp
  have core_hd: "\<not> is_int_space (hd core)"
    unfolding core_def using assms(2) body_ne body_hd d digit_not_special [OF d]
    by (auto simp: is_int_space_def)
  have core_last: "\<not> is_int_space (last core)"
    unfolding core_def using body_ne last_digit digit_not_special by simp
  have strip: "strip_with is_int_space (lead @ core @ trail) = core"
    using assms(1) core_ne core_hd core_last by (intro strip_with_core) auto
  have body_of: "(case core of [] \<Rightarrow> core
                  | c # r \<Rightarrow> if c = CHR ''-'' \<or> c = CHR ''+'' then r else core) = body"
    unfolding core_def using assms(2) body_ne body_hd digit_not_special [OF d]
    by (cases body) auto
  have minus: "(core \<noteq> [] \<and> hd core = CHR ''-'') = (sg = ''-'')"
    unfolding core_def using assms(2) body_ne body_hd digit_not_special [OF d] by auto
  have no_us: "CHR ''_'' \<notin> set g" "\<forall>h\<in>set gs. CHR ''_'' \<notin> set h"
    using assms(3) digit_not_special by auto
  have groups: "split_underscore body [] = g # gs"
    unfolding body_def using split_underscore_groups [OF no_us, of "[]"] by simp
  have valid: "list_all (\<lambda>g. g \<noteq> [] \<and> list_all is_digit g) (g # gs)"
    using assms(3) by (auto simp: list_all_iff)
  have "int_of_str (lead @ core @ trail)
          = Some (if sg = ''-'' then - decimal (concat (g # gs)) else decimal (concat (g # gs)))"
    unfolding int_of_str_def Let_def strip body_of groups minus
    using valid assms(4) by simp
  then show ?thesis
    unfolding core_def body_def by simp
qed

lemma digit_table:
  "m < 10 \<Longrightarrow> is_digit (''0123456789'' ! m) \<and> digit_val (''0123456789'' ! m) = int m"
proof -
  assume "m < 10"
  then have "m \<in> {0, 1, 2, 3, 4, 5, 6, 7, 8, 9}" by auto
  then show ?thesis by (auto simp: is_digit_def digit_val_def)
qed

lemma decimal_snoc: "decimal (ds @ [c]) = decimal ds * 10 + digit_val c"
  by (simp add: decimal_def)

lemma str_nat_digits: "\<forall>c\<in>set (str_nat n). is_digit c"
proof (induction n rule: str_nat.induct)
  case (1 n)
  show ?case
  proof (cases "n < 10")
    case True
    then show ?thesis by (simp add: str_nat.simps [of n] digit_table)
  next
    case False
    then show ?thesis using 1 by (simp add: str_nat.simps [of n] digit_table)
  qed
qed

lemma str_nat_nonempty: "str_nat n \<noteq> []"
  by (simp add: str_nat.simps [of n])

lemma decimal_str_nat: "decimal (str_nat n) = int n"
proof (induction n rule: str_nat.induct)
  case (1 n)
  show ?case
  proof (cases "n < 10")
    case True
    then show ?thesis by (simp add: str_nat.simps [of n] decimal_def digit_table)
  next
    case False
    then have "decimal (str_nat n) = int (n div 10) * 10 + int (n mod 10)"
      using 1 by (simp add: str_nat.simps [of n] decimal_snoc digit_table)
    also have "\<dots> = int (n div 10 * 10 + n mod 10)"
      by (simp only: of_nat_add of_nat_mult of_nat_numeral)
    also have "\<dots> = int n" by simp
    finally show ?thesis .
  qed
qed

lemma length_str_nat: "0 < k \<Longrightarrow> n < 10 ^ k \<Longrightarrow> length (str_nat n) \<le> k"
proof (induction n arbitrary: k rule: str_nat.induct)
  case (1 n)
  show ?case
  proof (cases "n < 10")
    case True
    then show ?thesis using "1.prems" by (simp add: str_nat.simps [of n])
  next
    case False
    then obtain j where k: "k = Suc j" and j: "0 < j"
      using "1.prems" by (cases k; cases "k - 1") auto
    have "n div 10 < 10 ^ j"
      using "1.prems"(2) k by (simp add: less_mult_imp_div_less mult.commute)
    then have "length (str_nat (n div 10)) \<le> j"
      using "1.IH" False j by simp
    then show ?thesis using False k by (simp add: str_nat.simps [of n])
  qed
qed

lemma str_int_roundtrip:
  assumes "\<bar>i\<bar> < 10 ^ int_max_str_digits"
  shows "int_of_str (str_int i) = Some i"
proof -
  define n where "n = nat \<bar>i\<bar>"
  have bound: "n < 10 ^ int_max_str_digits"
  proof -
    have "int n < 10 ^ int_max_str_digits" using assms by (simp add: n_def)
    then have "int n < int (10 ^ int_max_str_digits)" by simp
    then show ?thesis by (simp only: of_nat_less_iff)
  qed
  have pos: "0 < int_max_str_digits" by (simp add: int_max_str_digits_def)
  have len: "length (concat (str_nat n # [])) \<le> int_max_str_digits"
    using length_str_nat [OF pos bound] by simp
  have ok: "\<forall>h\<in>set (str_nat n # []). h \<noteq> [] \<and> (\<forall>c\<in>set h. is_digit c)"
    using str_nat_digits str_nat_nonempty by simp
  have none: "\<forall>c\<in>set [] \<union> set []. is_int_space c" by simp
  show ?thesis
  proof (cases "i < 0")
    case True
    have "int_of_str ([] @ ''-'' @ str_nat n @ concat (map ((#) CHR ''_'') []) @ [])
            = Some (if ''-'' = ''-'' then - decimal (concat (str_nat n # []))
                    else decimal (concat (str_nat n # [])))"
      using none ok len by (intro int_of_str_complete) auto
    then show ?thesis using True by (simp add: str_int_def n_def decimal_str_nat)
  next
    case False
    have "int_of_str ([] @ [] @ str_nat n @ concat (map ((#) CHR ''_'') []) @ [])
            = Some (if [] = ''-'' then - decimal (concat (str_nat n # []))
                    else decimal (concat (str_nat n # [])))"
      using none ok len by (intro int_of_str_complete) auto
    then show ?thesis using False by (simp add: str_int_def n_def decimal_str_nat)
  qed
qed

lemma str_int_decimal:
  "0 \<le> i \<and> i < 10 \<longrightarrow> str_int i = [''0123456789'' ! nat i]"
  "10 \<le> i \<longrightarrow> str_int i = str_int (i div 10) @ str_int (i mod 10)"
  "i < 0 \<longrightarrow> str_int i = CHR ''-'' # str_int (- i)"
proof -
  show "0 \<le> i \<and> i < 10 \<longrightarrow> str_int i = [''0123456789'' ! nat i]"
  proof
    assume "0 \<le> i \<and> i < 10"
    then have "nat i < 10" and "\<not> i < 0" by auto
    then show "str_int i = [''0123456789'' ! nat i]"
      by (simp add: str_int_def str_nat.simps [of "nat i"])
  qed
  show "i < 0 \<longrightarrow> str_int i = CHR ''-'' # str_int (- i)"
    by (simp add: str_int_def)
  show "10 \<le> i \<longrightarrow> str_int i = str_int (i div 10) @ str_int (i mod 10)"
  proof
    assume big: "10 \<le> i"
    have d: "nat (i div 10) = nat i div 10" and m: "nat (i mod 10) = nat i mod 10"
      using big by (simp_all add: nat_div_distrib nat_mod_distrib)
    have large: "\<not> nat i < 10" using big by simp
    have "str_nat (nat i) = str_nat (nat i div 10) @ [''0123456789'' ! (nat i mod 10)]"
      using large by (simp add: str_nat.simps [of "nat i"])
    moreover have "str_nat (nat i mod 10) = [''0123456789'' ! (nat i mod 10)]"
      by (simp add: str_nat.simps [of "nat i mod 10"])
    moreover have "\<not> i < 0" "\<not> i div 10 < 0" "\<not> i mod 10 < 0"
      using big by (simp_all add: pos_imp_zdiv_nonneg_iff)
    ultimately show "str_int i = str_int (i div 10) @ str_int (i mod 10)"
      using d m by (simp add: str_int_def)
  qed
qed

lemma int_of_str_iff:
  "(int_of_str t = Some n) =
     (\<exists>lead sg g gs trail.
        t = lead @ sg @ g @ concat (map ((#) CHR ''_'') gs) @ trail \<and>
        (\<forall>c\<in>set lead \<union> set trail. is_int_space c) \<and>
        sg \<in> {[], ''+'', ''-''} \<and>
        (\<forall>h\<in>set (g # gs). h \<noteq> [] \<and> (\<forall>c\<in>set h. is_digit c)) \<and>
        length (concat (g # gs)) \<le> int_max_str_digits \<and>
        n = (if sg = ''-'' then - decimal (concat (g # gs)) else decimal (concat (g # gs))))"
proof
  assume "int_of_str t = Some n"
  then show "\<exists>lead sg g gs trail.
        t = lead @ sg @ g @ concat (map ((#) CHR ''_'') gs) @ trail \<and>
        (\<forall>c\<in>set lead \<union> set trail. is_int_space c) \<and>
        sg \<in> {[], ''+'', ''-''} \<and>
        (\<forall>h\<in>set (g # gs). h \<noteq> [] \<and> (\<forall>c\<in>set h. is_digit c)) \<and>
        length (concat (g # gs)) \<le> int_max_str_digits \<and>
        n = (if sg = ''-'' then - decimal (concat (g # gs)) else decimal (concat (g # gs)))"
    by (rule int_of_str_sound)
next
  assume "\<exists>lead sg g gs trail.
        t = lead @ sg @ g @ concat (map ((#) CHR ''_'') gs) @ trail \<and>
        (\<forall>c\<in>set lead \<union> set trail. is_int_space c) \<and>
        sg \<in> {[], ''+'', ''-''} \<and>
        (\<forall>h\<in>set (g # gs). h \<noteq> [] \<and> (\<forall>c\<in>set h. is_digit c)) \<and>
        length (concat (g # gs)) \<le> int_max_str_digits \<and>
        n = (if sg = ''-'' then - decimal (concat (g # gs)) else decimal (concat (g # gs)))"
  then obtain lead sg g gs trail where
    shape: "t = lead @ sg @ g @ concat (map ((#) CHR ''_'') gs) @ trail"
    and a: "\<forall>c\<in>set lead \<union> set trail. is_int_space c"
    and b: "sg \<in> {[], ''+'', ''-''}"
    and c: "\<forall>h\<in>set (g # gs). h \<noteq> [] \<and> (\<forall>c\<in>set h. is_digit c)"
    and d: "length (concat (g # gs)) \<le> int_max_str_digits"
    and e: "n = (if sg = ''-'' then - decimal (concat (g # gs)) else decimal (concat (g # gs)))"
    by blast
  show "int_of_str t = Some n"
    unfolding shape e using a b c d by (rule int_of_str_complete)
qed

lemma py_int_str: "(py_int (PStr t) = Inr n) = (int_of_str t = Some n)"
  by (simp add: py_int_def split: option.splits)

lemma py_int_str_error: "py_int (PStr t) = Inl e \<Longrightarrow> e = ValueError"
  by (auto simp: py_int_def split: option.splits)

lemma format_int_small:
  "\<bar>m\<bar> < 10 ^ int_max_str_digits \<Longrightarrow> format_int m = Inr (str_int m)"
  by (simp add: format_int_def)

lemma format_int_large:
  "10 ^ int_max_str_digits \<le> \<bar>m\<bar> \<Longrightarrow> format_int m = Inl ValueError"
  by (simp add: format_int_def)

lemma change_config_rejected:
  "py_int v = Inl e \<Longrightarrow> change_config ev s network_id config v = (Inl e, s)"
  by (simp add: change_config_def)

lemma change_config_sent:
  assumes "py_int v = Inr m" and "\<bar>m\<bar> < 10 ^ int_max_str_digits"
    and "authtoken s = Some tok"
    and "run ev (trace s) [''zerotier-cli'', ''-T'' @ tok, ''set'', network_id,
                           config @ ''='' @ str_int m] = Exited rc out"
  shows "change_config ev s network_id config v =
           (Inr (), s\<lparr>trace := trace s @
              Exec [''zerotier-cli'', ''-T'' @ tok, ''set'', network_id,
                    config @ ''='' @ str_int m]
              # (if rc = 0 then []
                 else [Warning ''Failed to change config''
                         (''Error: '' @ DQ @ py_strip out @ DQ)])\<rparr>)"
  using assms
  by (simp add: change_config_def get_token_cached format_int_small check_output_exited)

lemma change_config_too_long:
  assumes "py_int v = Inr m" and "10 ^ int_max_str_digits \<le> \<bar>m\<bar>"
    and "authtoken s = Some tok"
  shows "change_config ev s network_id config v = (Inl ValueError, s)"
  using assms by (simp add: change_config_def get_token_cached format_int_large)

lemma str_int_ten: "str_int 10 = ''10''"
  by code_simp

lemma below_limit: "\<bar>m\<bar> \<le> 10 \<Longrightarrow> \<bar>m :: int\<bar> < 10 ^ int_max_str_digits"
proof -
  assume small: "\<bar>m\<bar> \<le> 10"
  have "(1::nat) < int_max_str_digits"
    by (simp add: int_max_str_digits_def)
  then have "(10::int) ^ 1 < 10 ^ int_max_str_digits"
    by (intro power_strict_increasing) simp_all
  then show ?thesis using small by simp
qed

lemma int_of_str_samples:
  "int_of_str ''fast'' = None"
  "int_of_str [CHR 0x1C, CHR ''5''] = None"
  "int_of_str '' -1_7 '' = Some (- 17)"
  by (simp_all add: int_of_str_def strip_with_def is_int_space_def is_digit_def decimal_def
        digit_val_def int_max_str_digits_def)

text \<open>
  C3, as the code has it. \<open>change_config\<close> turns \<open>True\<close> into 1 and \<open>False\<close> into 0. A
  value that \<open>int\<close> rejects makes it raise that error with the state untouched: no token
  is read and no command is started. A value that \<open>int\<close> accepts, of at most 4300 digits,
  is sent with the token resolved as \<open>config=<integer>\<close> in one \<open>set\<close> command; when that
  command exits with 0 nothing follows, and otherwise one warning shows the stripped
  output of the daemon. An integer of more than 4300 digits raises \<open>ValueError\<close> while
  the argument is formatted, before any command.

  The statement also fixes what \<open>int\<close> accepts and what is sent. A string is accepted
  exactly when it is white space, an optional sign, groups of digits joined by single
  underscores, white space, with no more than 4300 digits, and its value is the decimal
  value of the digits; any other string gives \<open>ValueError\<close> and \<open>None\<close> gives \<open>TypeError\<close>.
  The text sent is the decimal notation of the integer, which \<open>int\<close> reads back as the
  same integer.
\<close>

theorem change_config_coercion:
  "(\<forall>e. py_int v = Inl e \<longrightarrow> change_config ev s network_id config v = (Inl e, s))
   \<and> (\<forall>m tok rc out.
        py_int v = Inr m \<and> \<bar>m\<bar> < 10 ^ int_max_str_digits \<and> authtoken s = Some tok \<and>
        run ev (trace s) [''zerotier-cli'', ''-T'' @ tok, ''set'', network_id,
                          config @ ''='' @ str_int m] = Exited rc out
        \<longrightarrow> change_config ev s network_id config v =
              (Inr (), s\<lparr>trace := trace s @
                 Exec [''zerotier-cli'', ''-T'' @ tok, ''set'', network_id,
                       config @ ''='' @ str_int m]
                 # (if rc = 0 then []
                    else [Warning ''Failed to change config''
                            (''Error: '' @ DQ @ py_strip out @ DQ)])\<rparr>))
   \<and> (\<forall>m tok.
        py_int v = Inr m \<and> 10 ^ int_max_str_digits \<le> \<bar>m\<bar> \<and> authtoken s = Some tok
        \<longrightarrow> change_config ev s network_id config v = (Inl ValueError, s))
   \<and> (py_int (PStr t) = Inr n) =
       (\<exists>lead sg g gs trail.
          t = lead @ sg @ g @ concat (map ((#) CHR ''_'') gs) @ trail \<and>
          (\<forall>c\<in>set lead \<union> set trail.
             c \<in> set [CHR 0x09, CHR 0x0A, CHR 0x0B, CHR 0x0C, CHR 0x0D,
                      CHR 0x20, CHR 0x85, CHR 0xA0]) \<and>
          sg \<in> {[], ''+'', ''-''} \<and>
          (\<forall>h\<in>set (g # gs). h \<noteq> [] \<and> (\<forall>c\<in>set h. c \<in> set ''0123456789'')) \<and>
          length (concat (g # gs)) \<le> 4300 \<and>
          n = (if sg = ''-''
               then - foldl (\<lambda>a c. a * 10 + (int (of_char c) - 48)) 0 (concat (g # gs))
               else foldl (\<lambda>a c. a * 10 + (int (of_char c) - 48)) 0 (concat (g # gs))))
   \<and> (\<forall>e. py_int (PStr t) = Inl e \<longrightarrow> e = ValueError)
   \<and> py_int PNone = Inl TypeError
   \<and> py_int (PBool True) = Inr 1 \<and> py_int (PBool False) = Inr 0
   \<and> py_int (PInt i) = Inr i
   \<and> (0 \<le> i \<and> i < 10 \<longrightarrow> str_int i = [''0123456789'' ! nat i])
   \<and> (10 \<le> i \<longrightarrow> str_int i = str_int (i div 10) @ str_int (i mod 10))
   \<and> (i < 0 \<longrightarrow> str_int i = CHR ''-'' # str_int (- i))
   \<and> (\<bar>i\<bar> < 10 ^ int_max_str_digits \<longrightarrow> py_int (PStr (str_int i)) = Inr i)
   \<and> int_max_str_digits = 4300"
proof -
  have rejected: "\<forall>e. py_int v = Inl e \<longrightarrow> change_config ev s network_id config v = (Inl e, s)"
    by (simp add: change_config_rejected)
  have sent: "\<forall>m tok rc out.
        py_int v = Inr m \<and> \<bar>m\<bar> < 10 ^ int_max_str_digits \<and> authtoken s = Some tok \<and>
        run ev (trace s) [''zerotier-cli'', ''-T'' @ tok, ''set'', network_id,
                          config @ ''='' @ str_int m] = Exited rc out
        \<longrightarrow> change_config ev s network_id config v =
              (Inr (), s\<lparr>trace := trace s @
                 Exec [''zerotier-cli'', ''-T'' @ tok, ''set'', network_id,
                       config @ ''='' @ str_int m]
                 # (if rc = 0 then []
                    else [Warning ''Failed to change config''
                            (''Error: '' @ DQ @ py_strip out @ DQ)])\<rparr>)"
    by (auto simp: change_config_sent)
  have too_long: "\<forall>m tok.
        py_int v = Inr m \<and> 10 ^ int_max_str_digits \<le> \<bar>m\<bar> \<and> authtoken s = Some tok
        \<longrightarrow> change_config ev s network_id config v = (Inl ValueError, s)"
    by (auto simp: change_config_too_long)
  have shape: "(py_int (PStr t) = Inr n) =
       (\<exists>lead sg g gs trail.
          t = lead @ sg @ g @ concat (map ((#) CHR ''_'') gs) @ trail \<and>
          (\<forall>c\<in>set lead \<union> set trail.
             c \<in> set [CHR 0x09, CHR 0x0A, CHR 0x0B, CHR 0x0C, CHR 0x0D,
                      CHR 0x20, CHR 0x85, CHR 0xA0]) \<and>
          sg \<in> {[], ''+'', ''-''} \<and>
          (\<forall>h\<in>set (g # gs). h \<noteq> [] \<and> (\<forall>c\<in>set h. c \<in> set ''0123456789'')) \<and>
          length (concat (g # gs)) \<le> 4300 \<and>
          n = (if sg = ''-''
               then - foldl (\<lambda>a c. a * 10 + (int (of_char c) - 48)) 0 (concat (g # gs))
               else foldl (\<lambda>a c. a * 10 + (int (of_char c) - 48)) 0 (concat (g # gs))))"
    unfolding py_int_str
    using int_of_str_iff [of t n]
    unfolding is_int_space_def is_digit_def decimal_def digit_val_def int_max_str_digits_def .
  have only_value_error: "\<forall>e. py_int (PStr t) = Inl e \<longrightarrow> e = ValueError"
    by (auto dest: py_int_str_error)
  have simple: "py_int PNone = Inl TypeError" "py_int (PBool True) = Inr 1"
    "py_int (PBool False) = Inr 0" "py_int (PInt i) = Inr i"
    by (simp_all add: py_int_def)
  have notation_eq: "0 \<le> i \<and> i < 10 \<longrightarrow> str_int i = [''0123456789'' ! nat i]"
    "10 \<le> i \<longrightarrow> str_int i = str_int (i div 10) @ str_int (i mod 10)"
    "i < 0 \<longrightarrow> str_int i = CHR ''-'' # str_int (- i)"
    by (rule str_int_decimal)+
  have round_trip: "\<bar>i\<bar> < 10 ^ int_max_str_digits \<longrightarrow> py_int (PStr (str_int i)) = Inr i"
    by (simp add: py_int_str str_int_roundtrip)
  have limit: "int_max_str_digits = 4300"
    by (simp add: int_max_str_digits_def)
  show ?thesis
    by (intro conjI rejected sent too_long shape only_value_error simple notation_eq
          round_trip limit)
qed

theorem change_config_coercion_witness:
  "change_config sample_env resolved_state ''8056c2e21c000001'' ''allowDNS'' (PStr ''fast'')
     = (Inl ValueError, resolved_state)
   \<and> change_config sample_env resolved_state ''8056c2e21c000001'' ''allowDNS''
       (PStr [CHR 0x1C, CHR ''5''])
     = (Inl ValueError, resolved_state)
   \<and> change_config sample_env resolved_state ''8056c2e21c000001'' ''allowDNS'' (PBool True)
     = (Inr (), resolved_state\<lparr>trace :=
          [Exec [''zerotier-cli'', ''-TtokB'', ''set'', ''8056c2e21c000001'', ''allowDNS=1'']]\<rparr>)
   \<and> change_config sample_env resolved_state ''8056c2e21c000001'' ''allowGlobal'' (PBool False)
     = (Inr (), resolved_state\<lparr>trace :=
          [Exec [''zerotier-cli'', ''-TtokB'', ''set'', ''8056c2e21c000001'', ''allowGlobal=0''],
           Warning ''Failed to change config''
             (''Error: '' @ DQ @ ''ERROR: setting not allowed'' @ DQ)]\<rparr>)
   \<and> py_int (PStr ([CHR 0xA0] @ ''1_0 '')) = Inr 10
   \<and> change_config sample_env resolved_state ''8056c2e21c000001'' ''allowDNS''
       (PStr ([CHR 0xA0] @ ''1_0 ''))
     = (Inr (), resolved_state\<lparr>trace :=
          [Exec [''zerotier-cli'', ''-TtokB'', ''set'', ''8056c2e21c000001'', ''allowDNS=10'']]\<rparr>)
   \<and> change_config sample_env resolved_state ''8056c2e21c000001'' ''allowDNS''
       (PInt (- (10 ^ int_max_str_digits)))
     = (Inl ValueError, resolved_state)"
proof -
  have set_dns:
    "run sample_env (trace resolved_state)
       [''zerotier-cli'', ''-T'' @ ''tokB'', ''set'', ''8056c2e21c000001'',
        ''allowDNS'' @ ''='' @ str_int 1] = Exited 0 (''allowDNS=1'' @ NL)"
    by (simp add: str_int_samples sample_run table_def sample_procs_def)
  have set_ten:
    "run sample_env (trace resolved_state)
       [''zerotier-cli'', ''-T'' @ ''tokB'', ''set'', ''8056c2e21c000001'',
        ''allowDNS'' @ ''='' @ str_int 10] = Exited 0 (''allowDNS=10'' @ NL)"
    by (simp add: str_int_ten sample_run table_def sample_procs_def)
  have set_global:
    "run sample_env (trace resolved_state)
       [''zerotier-cli'', ''-T'' @ ''tokB'', ''set'', ''8056c2e21c000001'',
        ''allowGlobal'' @ ''='' @ str_int 0] = Exited 1 (''ERROR: setting not allowed'' @ NL)"
    by (simp add: str_int_samples sample_run table_def sample_procs_def)
  have rejected: "py_int (PStr ''fast'') = Inl ValueError"
    "py_int (PStr [CHR 0x1C, CHR ''5'']) = Inl ValueError"
    by (simp_all add: py_int_def int_of_str_samples)
  have parts: "\<exists>lead sg g gs trail.
          [CHR 0xA0] @ ''1_0 '' = lead @ sg @ g @ concat (map ((#) CHR ''_'') gs) @ trail \<and>
          (\<forall>c\<in>set lead \<union> set trail.
             c \<in> set [CHR 0x09, CHR 0x0A, CHR 0x0B, CHR 0x0C, CHR 0x0D,
                      CHR 0x20, CHR 0x85, CHR 0xA0]) \<and>
          sg \<in> {[], ''+'', ''-''} \<and>
          (\<forall>h\<in>set (g # gs). h \<noteq> [] \<and> (\<forall>c\<in>set h. c \<in> set ''0123456789'')) \<and>
          length (concat (g # gs)) \<le> 4300 \<and>
          (10::int) = (if sg = ''-''
               then - foldl (\<lambda>a c. a * 10 + (int (of_char c) - 48)) 0 (concat (g # gs))
               else foldl (\<lambda>a c. a * 10 + (int (of_char c) - 48)) 0 (concat (g # gs)))"
    by (rule exI [of _ "[CHR 0xA0]"], rule exI [of _ "[]"], rule exI [of _ "''1''"],
        rule exI [of _ "[''0'']"], rule exI [of _ "'' ''"]) simp
  have ten: "py_int (PStr ([CHR 0xA0] @ ''1_0 '')) = Inr 10"
    using change_config_coercion [where t = "[CHR 0xA0] @ ''1_0 ''" and n = 10,
            THEN conjunct2, THEN conjunct2, THEN conjunct2, THEN conjunct1] parts
    by (rule iffD2)
  have small: "\<bar>1 :: int\<bar> < 10 ^ int_max_str_digits"
    "\<bar>0 :: int\<bar> < 10 ^ int_max_str_digits" "\<bar>10 :: int\<bar> < 10 ^ int_max_str_digits"
    by (rule below_limit, simp)+
  have yes: "py_int (PBool True) = Inr 1" and no: "py_int (PBool False) = Inr 0"
    by (simp_all add: py_int_def)
  have huge: "py_int (PInt (- (10 ^ int_max_str_digits))) = Inr (- (10 ^ int_max_str_digits))"
    by (simp add: py_int_def)
  have beyond: "10 ^ int_max_str_digits \<le> \<bar>- ((10::int) ^ int_max_str_digits)\<bar>"
    by simp
  have a: "change_config sample_env resolved_state ''8056c2e21c000001'' ''allowDNS''
             (PStr ''fast'') = (Inl ValueError, resolved_state)"
    using change_config_coercion [where v = "PStr ''fast''" and ev = sample_env
            and s = resolved_state and network_id = "''8056c2e21c000001''"
            and config = "''allowDNS''", THEN conjunct1] rejected(1)
    by blast
  have a2: "change_config sample_env resolved_state ''8056c2e21c000001'' ''allowDNS''
             (PStr [CHR 0x1C, CHR ''5'']) = (Inl ValueError, resolved_state)"
    using change_config_coercion [where v = "PStr [CHR 0x1C, CHR ''5'']" and ev = sample_env
            and s = resolved_state and network_id = "''8056c2e21c000001''"
            and config = "''allowDNS''", THEN conjunct1] rejected(2)
    by blast
  have b: "change_config sample_env resolved_state ''8056c2e21c000001'' ''allowDNS''
             (PBool True) =
           (Inr (), resolved_state\<lparr>trace := trace resolved_state @
              Exec [''zerotier-cli'', ''-T'' @ ''tokB'', ''set'', ''8056c2e21c000001'',
                    ''allowDNS'' @ ''='' @ str_int 1]
              # (if (0::int) = 0 then []
                 else [Warning ''Failed to change config''
                         (''Error: '' @ DQ @ py_strip (''allowDNS=1'' @ NL) @ DQ)])\<rparr>)"
    using change_config_coercion [where v = "PBool True" and ev = sample_env
            and s = resolved_state and network_id = "''8056c2e21c000001''"
            and config = "''allowDNS''", THEN conjunct2, THEN conjunct1]
          yes resolved_token set_dns small(1)
    by blast
  have c: "change_config sample_env resolved_state ''8056c2e21c000001'' ''allowGlobal''
             (PBool False) =
           (Inr (), resolved_state\<lparr>trace := trace resolved_state @
              Exec [''zerotier-cli'', ''-T'' @ ''tokB'', ''set'', ''8056c2e21c000001'',
                    ''allowGlobal'' @ ''='' @ str_int 0]
              # (if (1::int) = 0 then []
                 else [Warning ''Failed to change config''
                         (''Error: '' @ DQ @ py_strip (''ERROR: setting not allowed'' @ NL)
                          @ DQ)])\<rparr>)"
    using change_config_coercion [where v = "PBool False" and ev = sample_env
            and s = resolved_state and network_id = "''8056c2e21c000001''"
            and config = "''allowGlobal''", THEN conjunct2, THEN conjunct1]
          no resolved_token set_global small(2)
    by blast
  have d: "change_config sample_env resolved_state ''8056c2e21c000001'' ''allowDNS''
             (PStr ([CHR 0xA0] @ ''1_0 '')) =
           (Inr (), resolved_state\<lparr>trace := trace resolved_state @
              Exec [''zerotier-cli'', ''-T'' @ ''tokB'', ''set'', ''8056c2e21c000001'',
                    ''allowDNS'' @ ''='' @ str_int 10]
              # (if (0::int) = 0 then []
                 else [Warning ''Failed to change config''
                         (''Error: '' @ DQ @ py_strip (''allowDNS=10'' @ NL) @ DQ)])\<rparr>)"
    using change_config_coercion [where v = "PStr ([CHR 0xA0] @ ''1_0 '')" and ev = sample_env
            and s = resolved_state and network_id = "''8056c2e21c000001''"
            and config = "''allowDNS''", THEN conjunct2, THEN conjunct1]
          ten resolved_token set_ten small(3)
    by blast
  have e: "change_config sample_env resolved_state ''8056c2e21c000001'' ''allowDNS''
             (PInt (- (10 ^ int_max_str_digits))) = (Inl ValueError, resolved_state)"
    using change_config_coercion [where v = "PInt (- (10 ^ int_max_str_digits))"
            and ev = sample_env and s = resolved_state
            and network_id = "''8056c2e21c000001''" and config = "''allowDNS''",
            THEN conjunct2, THEN conjunct2, THEN conjunct1]
          huge beyond resolved_token
    by blast
  show ?thesis
    using a a2 b c d e ten
    by (simp add: str_int_samples str_int_ten resolved_state_def initial_state_def
          py_strip_def strip_with_def is_space_def)
qed

text \<open>
  The claim that every value \<open>int\<close> accepts is sent fails at the integer \<open>10 ^ 4300\<close>:
  \<open>int\<close> returns it, and the f-string that builds the argument raises \<open>ValueError\<close>, so
  no command is started.
\<close>

theorem change_config_coercion_counterexample:
  "int_max_str_digits = 4300
   \<and> py_int (PInt (10 ^ int_max_str_digits)) = Inr (10 ^ int_max_str_digits)
   \<and> change_config sample_env resolved_state ''8056c2e21c000001'' ''allowDNS''
         (PInt (10 ^ int_max_str_digits)) = (Inl ValueError, resolved_state)"
proof -
  have limit: "int_max_str_digits = 4300"
    by (simp add: int_max_str_digits_def)
  have coerced: "py_int (PInt (10 ^ int_max_str_digits)) = Inr (10 ^ int_max_str_digits)"
    by (simp add: py_int_def)
  have refused: "format_int (10 ^ int_max_str_digits) = Inl ValueError"
    by (simp add: format_int_def)
  have raised: "change_config sample_env resolved_state ''8056c2e21c000001'' ''allowDNS''
         (PInt (10 ^ int_max_str_digits)) = (Inl ValueError, resolved_state)"
    by (simp add: change_config_def coerced get_token_cached resolved_token refused)
  show ?thesis
    by (intro conjI limit coerced raised)
qed

lemma is_on_network_loop_eq:
  "is_on_network_loop nets network_id b = (b \<or> network_id \<in> nwid ` set nets)"
  by (induction nets arbitrary: b) auto

lemma get_networks_info_ok:
  "authtoken s = Some tok \<Longrightarrow>
   run ev (trace s) [''zerotier-cli'', ''-T'' @ tok, ''-j'', ''listnetworks''] = Exited 0 out \<Longrightarrow>
   loads_networks ev out = Some nets \<Longrightarrow>
   get_networks_info ev s =
     (Inr nets, s\<lparr>trace := trace s @ [Exec [''zerotier-cli'', ''-T'' @ tok, ''-j'', ''listnetworks'']]\<rparr>)"
  by (simp add: get_networks_info_def get_token_cached check_output_exited)

text \<open>
  C4. With the token resolved and \<open>listnetworks\<close> answered by a list of networks: for an
  id that is the \<open>nwid\<close> of an entry, \<open>join_network\<close> starts no command besides the listing,
  shows the note of membership and returns \<open>False\<close>; for an id that is not, it starts the
  \<open>join\<close> command and returns \<open>True\<close> when that exits with 0, and otherwise warns about an
  invalid id and returns \<open>False\<close>.
\<close>

theorem join_network_membership:
  assumes "authtoken s = Some tok"
    and "run ev (trace s) [''zerotier-cli'', ''-T'' @ tok, ''-j'', ''listnetworks''] = Exited 0 out"
    and "loads_networks ev out = Some nets"
  shows "(network_id \<in> nwid ` set nets \<longrightarrow>
            join_network ev s network_id =
              (Inr False, s\<lparr>trace := trace s @
                 [Exec [''zerotier-cli'', ''-T'' @ tok, ''-j'', ''listnetworks''],
                  Information APP_NAME ''You are already a member of this network.'']\<rparr>))
       \<and> (network_id \<notin> nwid ` set nets \<longrightarrow>
            (\<forall>rc txt.
               run ev (trace s @ [Exec [''zerotier-cli'', ''-T'' @ tok, ''-j'', ''listnetworks'']])
                   [''zerotier-cli'', ''-T'' @ tok, ''join'', network_id] = Exited rc txt
               \<longrightarrow> join_network ev s network_id =
                     (Inr (rc = 0), s\<lparr>trace := trace s @
                        [Exec [''zerotier-cli'', ''-T'' @ tok, ''-j'', ''listnetworks''],
                         Exec [''zerotier-cli'', ''-T'' @ tok, ''join'', network_id]]
                        @ (if rc = 0 then [] else [Warning APP_NAME ''Invalid network ID''])\<rparr>)))"
  using assms
  by (auto simp: join_network_def is_on_network_def get_networks_info_ok is_on_network_loop_eq
        get_token_cached check_call_exited join_network_except_def)

theorem join_network_membership_witness:
  "join_network sample_env resolved_state ''8056c2e21c000001'' =
     (Inr False, resolved_state\<lparr>trace :=
        [Exec [''zerotier-cli'', ''-TtokB'', ''-j'', ''listnetworks''],
         Information ''ZeroTier-Qt'' ''You are already a member of this network.'']\<rparr>)
   \<and> join_network sample_env resolved_state ''a09acf0233e4b070'' =
     (Inr True, resolved_state\<lparr>trace :=
        [Exec [''zerotier-cli'', ''-TtokB'', ''-j'', ''listnetworks''],
         Exec [''zerotier-cli'', ''-TtokB'', ''join'', ''a09acf0233e4b070'']]\<rparr>)"
proof -
  have present: "''8056c2e21c000001'' \<in> nwid ` set sample_networks"
    by (simp add: sample_networks_def)
  have absent: "''a09acf0233e4b070'' \<notin> nwid ` set sample_networks"
    by (simp add: sample_networks_def)
  have joined:
    "run sample_env
       (trace resolved_state @ [Exec [''zerotier-cli'', ''-T'' @ ''tokB'', ''-j'', ''listnetworks'']])
       [''zerotier-cli'', ''-T'' @ ''tokB'', ''join'', ''a09acf0233e4b070'']
     = Exited 0 (''200 join OK'' @ NL)"
    by (simp add: sample_run table_def sample_procs_def)
  note rule = join_network_membership [OF resolved_token sample_listnetworks sample_loads_networks]
  have a: "join_network sample_env resolved_state ''8056c2e21c000001'' =
             (Inr False, resolved_state\<lparr>trace := trace resolved_state @
                [Exec [''zerotier-cli'', ''-T'' @ ''tokB'', ''-j'', ''listnetworks''],
                 Information APP_NAME ''You are already a member of this network.'']\<rparr>)"
    using rule [of "''8056c2e21c000001''"] present by blast
  have b: "join_network sample_env resolved_state ''a09acf0233e4b070'' =
             (Inr ((0::int) = 0), resolved_state\<lparr>trace := trace resolved_state @
                [Exec [''zerotier-cli'', ''-T'' @ ''tokB'', ''-j'', ''listnetworks''],
                 Exec [''zerotier-cli'', ''-T'' @ ''tokB'', ''join'', ''a09acf0233e4b070'']]
                @ (if (0::int) = 0 then [] else [Warning APP_NAME ''Invalid network ID''])\<rparr>)"
    using rule [of "''a09acf0233e4b070''"] absent joined by blast
  show ?thesis
    using a b by (simp add: resolved_trace APP_NAME_def)
qed

text \<open>
  C8. \<open>leave_network\<close> first asks for confirmation. With any answer but Yes it logs the
  question alone, starts no command and returns \<open>False\<close>. With Yes and the token resolved it
  starts the \<open>leave\<close> command after the question and returns \<open>True\<close> when that exits
  with 0, and otherwise warns that leaving failed and returns \<open>False\<close>.
\<close>

theorem leave_network_confirmation:
  "(\<not> question ev (trace s) ''Leave Network'' (leave_text networkId networkName) \<longrightarrow>
      leave_network ev s networkId networkName =
        (Inr False, s\<lparr>trace := trace s @
           [Question ''Leave Network'' (leave_text networkId networkName)]\<rparr>))
   \<and> (\<forall>tok rc out.
        question ev (trace s) ''Leave Network'' (leave_text networkId networkName) \<and>
        authtoken s = Some tok \<and>
        run ev (trace s @ [Question ''Leave Network'' (leave_text networkId networkName)])
            [''zerotier-cli'', ''-T'' @ tok, ''leave'', networkId] = Exited rc out
        \<longrightarrow> leave_network ev s networkId networkName =
              (Inr (rc = 0), s\<lparr>trace := trace s @
                 [Question ''Leave Network'' (leave_text networkId networkName),
                  Exec [''zerotier-cli'', ''-T'' @ tok, ''leave'', networkId]]
                 @ (if rc = 0 then [] else [Warning APP_NAME ''Failed to leave network.''])\<rparr>))"
  by (auto simp: leave_network_def Let_def get_token_cached check_call_exited)

theorem leave_network_confirmation_witness:
  "leave_network declining_env resolved_state ''8056c2e21c000001'' (Some ''lab'') =
     (Inr False, resolved_state\<lparr>trace :=
        [Question ''Leave Network'' (leave_text ''8056c2e21c000001'' (Some ''lab''))]\<rparr>)
   \<and> leave_network sample_env resolved_state ''8056c2e21c000001'' (Some ''lab'') =
     (Inr True, resolved_state\<lparr>trace :=
        [Question ''Leave Network'' (leave_text ''8056c2e21c000001'' (Some ''lab'')),
         Exec [''zerotier-cli'', ''-TtokB'', ''leave'', ''8056c2e21c000001'']]\<rparr>)"
proof -
  have no: "\<not> question declining_env (trace resolved_state) ''Leave Network''
                (leave_text ''8056c2e21c000001'' (Some ''lab''))"
    by (simp add: declining_env_def)
  have yes: "question sample_env (trace resolved_state) ''Leave Network''
               (leave_text ''8056c2e21c000001'' (Some ''lab''))"
    by (simp add: sample_env_def)
  have left:
    "run sample_env
       (trace resolved_state @
          [Question ''Leave Network'' (leave_text ''8056c2e21c000001'' (Some ''lab''))])
       [''zerotier-cli'', ''-T'' @ ''tokB'', ''leave'', ''8056c2e21c000001'']
     = Exited 0 (''200 leave OK'' @ NL)"
    by (simp add: sample_run table_def sample_procs_def)
  have a: "leave_network declining_env resolved_state ''8056c2e21c000001'' (Some ''lab'') =
             (Inr False, resolved_state\<lparr>trace := trace resolved_state @
                [Question ''Leave Network'' (leave_text ''8056c2e21c000001'' (Some ''lab''))]\<rparr>)"
    using leave_network_confirmation [of declining_env resolved_state
            "''8056c2e21c000001''" "Some ''lab''"] no
    by blast
  have b: "leave_network sample_env resolved_state ''8056c2e21c000001'' (Some ''lab'') =
             (Inr ((0::int) = 0), resolved_state\<lparr>trace := trace resolved_state @
                [Question ''Leave Network'' (leave_text ''8056c2e21c000001'' (Some ''lab'')),
                 Exec [''zerotier-cli'', ''-T'' @ ''tokB'', ''leave'', ''8056c2e21c000001'']]
                @ (if (0::int) = 0 then [] else [Warning APP_NAME ''Failed to leave network.''])\<rparr>)"
    using leave_network_confirmation [of sample_env resolved_state
            "''8056c2e21c000001''" "Some ''lab''"] yes resolved_token left
    by blast
  show ?thesis
    using a b by (simp add: resolved_trace)
qed

section \<open>Properties of the interface toggle\<close>

lemma sample_loads_interfaces:
  "loads_interfaces sample_env interfaces_json = Some sample_interfaces"
  by (simp add: sample_env_def)

lemma sample_ip:
  "run sample_env h [''ip'', ''--json'', ''address''] = Exited 0 interfaces_json"
  by (simp add: sample_run table_def sample_procs_def)

lemma sample_state_ztabc:
  "get_interface_state sample_env resolved_state ''ztabc'' =
     (Inr ''DOWN'', resolved_state\<lparr>trace := [Exec [''ip'', ''--json'', ''address'']]\<rparr>)"
  by (simp add: get_interface_state_def check_output_exited sample_ip sample_loads_interfaces
        sample_interfaces_def resolved_trace)

lemma sample_state_ztdef:
  "get_interface_state sample_env resolved_state ''ztdef'' =
     (Inr ''UNKNOWN'', resolved_state\<lparr>trace := [Exec [''ip'', ''--json'', ''address'']]\<rparr>)"
  by (simp add: get_interface_state_def check_output_exited sample_ip sample_loads_interfaces
        sample_interfaces_def resolved_trace)

lemma sample_state_eth:
  "get_interface_state sample_env resolved_state ''eth7'' =
     (Inl UnboundLocalError, resolved_state\<lparr>trace := [Exec [''ip'', ''--json'', ''address'']]\<rparr>)"
  by (simp add: get_interface_state_def check_output_exited sample_ip sample_loads_interfaces
        sample_interfaces_def resolved_trace)

lemma lower_samples: "py_lower ''DOWN'' = ''down''" "py_lower ''UNKNOWN'' = ''unknown''"
  by (simp_all add: py_lower_def lower_char_def)

lemma lower_char_d: "(lower_char c = CHR ''d'') = (c \<in> {CHR ''d'', CHR ''D''})"
  by (auto simp: lower_char_def)

lemma lower_char_o: "(lower_char c = CHR ''o'') = (c \<in> {CHR ''o'', CHR ''O''})"
  by (auto simp: lower_char_def)

lemma lower_char_w: "(lower_char c = CHR ''w'') = (c \<in> {CHR ''w'', CHR ''W''})"
  by (auto simp: lower_char_def)

lemma lower_char_n: "(lower_char c = CHR ''n'') = (c \<in> {CHR ''n'', CHR ''N''})"
  by (auto simp: lower_char_def)

lemma py_lower_down:
  "(py_lower st = ''down'') =
     (\<exists>a b c d. st = [a, b, c, d] \<and> a \<in> {CHR ''d'', CHR ''D''} \<and> b \<in> {CHR ''o'', CHR ''O''}
        \<and> c \<in> {CHR ''w'', CHR ''W''} \<and> d \<in> {CHR ''n'', CHR ''N''})"
proof
  assume low: "py_lower st = ''down''"
  then have "length st = 4" by (auto simp: py_lower_def dest: arg_cong [where f = length])
  then obtain a b c d where st: "st = [a, b, c, d]"
    by (cases st; cases "tl st"; cases "tl (tl st)"; cases "tl (tl (tl st))") auto
  then show "\<exists>a b c d. st = [a, b, c, d] \<and> a \<in> {CHR ''d'', CHR ''D''} \<and> b \<in> {CHR ''o'', CHR ''O''}
        \<and> c \<in> {CHR ''w'', CHR ''W''} \<and> d \<in> {CHR ''n'', CHR ''N''}"
    using low lower_char_d [of a] lower_char_o [of b] lower_char_w [of c] lower_char_n [of d]
    by (simp add: py_lower_def)
next
  assume "\<exists>a b c d. st = [a, b, c, d] \<and> a \<in> {CHR ''d'', CHR ''D''} \<and> b \<in> {CHR ''o'', CHR ''O''}
        \<and> c \<in> {CHR ''w'', CHR ''W''} \<and> d \<in> {CHR ''n'', CHR ''N''}"
  then obtain a b c d where "st = [a, b, c, d]" "a \<in> {CHR ''d'', CHR ''D''}"
    "b \<in> {CHR ''o'', CHR ''O''}" "c \<in> {CHR ''w'', CHR ''W''}" "d \<in> {CHR ''n'', CHR ''N''}"
    by blast
  then show "py_lower st = ''down''"
    using lower_char_d [of a] lower_char_o [of b] lower_char_w [of c] lower_char_n [of d]
    by (simp add: py_lower_def)
qed

lemma mixed_state_ztabc:
  "get_interface_state mixed_case_env resolved_state ''ztabc'' =
     (Inr ''Down'', resolved_state\<lparr>trace := [Exec [''ip'', ''--json'', ''address'']]\<rparr>)"
  by (simp add: get_interface_state_def check_output_def mixed_case_env_def sample_env_def
        table_def resolved_trace)

text \<open>
  C9. \<open>toggle_interface\<close> takes the name of the interface only. When the state of the
  interface is read, the one command it starts next asks for \<open>up\<close> if the state is the
  word \<open>down\<close> in any mixture of capital and small letters, and for \<open>down\<close> in every
  other case; when the read fails, it raises the error of the read and starts nothing.
  The sixteen spellings are exactly the strings that \<open>lower()\<close> turns into \<open>down\<close>.
\<close>

theorem toggle_interface_flips:
  "(\<forall>st s1. get_interface_state ev s interfaceName = (Inr st, s1) \<longrightarrow>
       (\<exists>r. toggle_interface ev s interfaceName =
          (r, s1\<lparr>trace := trace s1 @
             [Exec [''pkexec'', ''ip'', ''link'', ''set'', interfaceName,
                    (if \<exists>a b c d. st = [a, b, c, d] \<and> a \<in> {CHR ''d'', CHR ''D''}
                          \<and> b \<in> {CHR ''o'', CHR ''O''} \<and> c \<in> {CHR ''w'', CHR ''W''}
                          \<and> d \<in> {CHR ''n'', CHR ''N''}
                     then ''up'' else ''down'')]]\<rparr>)))
   \<and> (\<forall>e s1. get_interface_state ev s interfaceName = (Inl e, s1) \<longrightarrow>
         toggle_interface ev s interfaceName = (Inl e, s1))
   \<and> (py_lower st = ''down'') =
       (\<exists>a b c d. st = [a, b, c, d] \<and> a \<in> {CHR ''d'', CHR ''D''}
          \<and> b \<in> {CHR ''o'', CHR ''O''} \<and> c \<in> {CHR ''w'', CHR ''W''}
          \<and> d \<in> {CHR ''n'', CHR ''N''})"
proof -
  have flip: "\<exists>r. toggle_interface ev s interfaceName =
          (r, s1\<lparr>trace := trace s1 @
             [Exec [''pkexec'', ''ip'', ''link'', ''set'', interfaceName,
                    (if py_lower st = ''down'' then ''up'' else ''down'')]]\<rparr>)"
    if "get_interface_state ev s interfaceName = (Inr st, s1)" for st s1
    using that
    by (auto simp: toggle_interface_def toggle_call_def check_call_def
             split: proc_result.splits error.splits)
  have failed: "toggle_interface ev s interfaceName = (Inl e, s1)"
    if "get_interface_state ev s interfaceName = (Inl e, s1)" for e s1
    using that by (simp add: toggle_interface_def)
  show ?thesis
    using flip failed unfolding py_lower_down by blast
qed

theorem toggle_interface_flips_witness:
  "(\<exists>r. toggle_interface sample_env resolved_state ''ztabc'' =
      (r, resolved_state\<lparr>trace :=
         [Exec [''ip'', ''--json'', ''address''],
          Exec [''pkexec'', ''ip'', ''link'', ''set'', ''ztabc'', ''up'']]\<rparr>))
   \<and> (\<exists>r. toggle_interface mixed_case_env resolved_state ''ztabc'' =
      (r, resolved_state\<lparr>trace :=
         [Exec [''ip'', ''--json'', ''address''],
          Exec [''pkexec'', ''ip'', ''link'', ''set'', ''ztabc'', ''up'']]\<rparr>))
   \<and> (\<exists>r. toggle_interface sample_env resolved_state ''ztdef'' =
      (r, resolved_state\<lparr>trace :=
         [Exec [''ip'', ''--json'', ''address''],
          Exec [''pkexec'', ''ip'', ''link'', ''set'', ''ztdef'', ''down'']]\<rparr>))
   \<and> toggle_interface sample_env resolved_state ''eth7'' =
       (Inl UnboundLocalError, resolved_state\<lparr>trace := [Exec [''ip'', ''--json'', ''address'']]\<rparr>)"
proof -
  have spelled:
    "(\<exists>a b c d. ''DOWN'' = [a, b, c, d] \<and> a \<in> {CHR ''d'', CHR ''D''}
          \<and> b \<in> {CHR ''o'', CHR ''O''} \<and> c \<in> {CHR ''w'', CHR ''W''}
          \<and> d \<in> {CHR ''n'', CHR ''N''}) = True"
    "(\<exists>a b c d. ''Down'' = [a, b, c, d] \<and> a \<in> {CHR ''d'', CHR ''D''}
          \<and> b \<in> {CHR ''o'', CHR ''O''} \<and> c \<in> {CHR ''w'', CHR ''W''}
          \<and> d \<in> {CHR ''n'', CHR ''N''}) = True"
    "(\<exists>a b c d. ''UNKNOWN'' = [a, b, c, d] \<and> a \<in> {CHR ''d'', CHR ''D''}
          \<and> b \<in> {CHR ''o'', CHR ''O''} \<and> c \<in> {CHR ''w'', CHR ''W''}
          \<and> d \<in> {CHR ''n'', CHR ''N''}) = False"
    by simp_all
  note rule = toggle_interface_flips [THEN conjunct1, rule_format]
  have a: "\<exists>r. toggle_interface sample_env resolved_state ''ztabc'' =
      (r, resolved_state\<lparr>trace :=
         [Exec [''ip'', ''--json'', ''address''],
          Exec [''pkexec'', ''ip'', ''link'', ''set'', ''ztabc'', ''up'']]\<rparr>)"
    using rule [OF sample_state_ztabc] by (simp add: spelled)
  have b: "\<exists>r. toggle_interface mixed_case_env resolved_state ''ztabc'' =
      (r, resolved_state\<lparr>trace :=
         [Exec [''ip'', ''--json'', ''address''],
          Exec [''pkexec'', ''ip'', ''link'', ''set'', ''ztabc'', ''up'']]\<rparr>)"
    using rule [OF mixed_state_ztabc] by (simp add: spelled)
  have c: "\<exists>r. toggle_interface sample_env resolved_state ''ztdef'' =
      (r, resolved_state\<lparr>trace :=
         [Exec [''ip'', ''--json'', ''address''],
          Exec [''pkexec'', ''ip'', ''link'', ''set'', ''ztdef'', ''down'']]\<rparr>)"
    using rule [OF sample_state_ztdef] by (simp add: spelled)
  have d: "toggle_interface sample_env resolved_state ''eth7'' =
       (Inl UnboundLocalError, resolved_state\<lparr>trace := [Exec [''ip'', ''--json'', ''address'']]\<rparr>)"
    using toggle_interface_flips [THEN conjunct2, THEN conjunct1, rule_format,
            OF sample_state_eth] .
  show ?thesis
    by (intro conjI a b c d)
qed

section \<open>Properties of the status line\<close>

lemma get_status_ok:
  "authtoken s = Some tok \<Longrightarrow>
   run ev (trace s) [''zerotier-cli'', ''-T'' @ tok, ''status''] = Exited 0 out \<Longrightarrow>
   get_status ev s =
     (Inr (py_split out), s\<lparr>trace := trace s @ [Exec [''zerotier-cli'', ''-T'' @ tok, ''status'']]\<rparr>)"
  by (simp add: get_status_def get_token_cached check_output_exited)

lemma get_token_label:
  "get_token ev s = (r, s1) \<Longrightarrow> statusLabel s1 = statusLabel s"
  by (auto simp: get_token_def isfile_def open_read_def
           split: option.splits if_splits bool.splits)

lemma check_output_label:
  "check_output ev s argv = (r, s1) \<Longrightarrow> statusLabel s1 = statusLabel s"
  by (auto simp: check_output_def split: proc_result.splits if_splits)

lemma get_networks_info_label:
  "get_networks_info ev s = (r, s1) \<Longrightarrow> statusLabel s1 = statusLabel s"
  by (auto simp: get_networks_info_def split: prod.splits sum.splits option.splits
           dest!: get_token_label check_output_label)

lemma get_interface_state_label:
  "get_interface_state ev s i = (r, s1) \<Longrightarrow> statusLabel s1 = statusLabel s"
  by (auto simp: get_interface_state_def split: prod.splits sum.splits option.splits
           dest!: check_output_label)

lemma refresh_rows_label:
  "refresh_rows ev s ns acc = (r, s1) \<Longrightarrow> statusLabel s1 = statusLabel s"
proof (induction ns arbitrary: s acc)
  case Nil
  then show ?case by simp
next
  case (Cons n ns)
  obtain q s' where step: "get_interface_state ev s (portDeviceName n) = (q, s')"
    by (cases "get_interface_state ev s (portDeviceName n)")
  have keep: "statusLabel s' = statusLabel s"
    using step by (rule get_interface_state_label)
  show ?case
  proof (cases q)
    case (Inl e)
    with Cons.prems step keep show ?thesis by simp
  next
    case (Inr st)
    with Cons.prems step have "refresh_rows ev s' ns
        (acc @ [([netid n, (if name n \<noteq> [] then name n else ''Unknown Name''),
                  status n, portDeviceName n], py_lower st = ''down'')]) = (r, s1)"
      by simp
    then have "statusLabel s1 = statusLabel s'" by (rule Cons.IH)
    with keep show ?thesis by simp
  qed
qed

lemma refresh_networks_label:
  assumes "authtoken s = Some tok"
    and "run ev (trace s) [''zerotier-cli'', ''-T'' @ tok, ''status''] = Exited 0 out"
    and "5 \<le> length (py_split out)"
  shows "statusLabel (snd (refresh_networks ev s)) =
           ''Your ID: '' @ py_split out ! 2 @ '' Status: '' @ py_split out ! 4"
  using assms
  by (auto simp: refresh_networks_def get_status_ok py_index_def
           split: prod.splits sum.splits
           dest!: get_networks_info_label refresh_rows_label)

lemma refresh_networks_short:
  assumes "authtoken s = Some tok"
    and "run ev (trace s) [''zerotier-cli'', ''-T'' @ tok, ''status''] = Exited 0 out"
    and "length (py_split out) < 5"
  shows "refresh_networks ev s =
           (Inl IndexError, s\<lparr>trace := trace s @ [Exec [''zerotier-cli'', ''-T'' @ tok, ''status'']]\<rparr>)"
  using assms
  by (auto simp: refresh_networks_def get_status_ok py_index_def)

lemma about_window_ok:
  assumes "authtoken s = Some tok"
    and "run ev (trace s) [''zerotier-cli'', ''-T'' @ tok, ''status''] = Exited 0 out"
  shows "about_window ev s =
           (if 4 \<le> length (py_split out)
            then (Inr (), s\<lparr>trace := trace s @
                    [Exec [''zerotier-cli'', ''-T'' @ tok, ''status''],
                     About ''About'' (about_text (py_split out ! 3))]\<rparr>)
            else (Inl IndexError, s\<lparr>trace := trace s @
                    [Exec [''zerotier-cli'', ''-T'' @ tok, ''status'']]\<rparr>))"
  using assms
  by (auto simp: about_window_def get_status_ok py_index_def)

lemma split_sample:
  "py_split ''200 info abcdef1234 1.10.1 ONLINE\<newline>'' =
     [''200'', ''info'', ''abcdef1234'', ''1.10.1'', ''ONLINE'']"
  by (simp add: py_split_def is_space_def)

lemma split_short:
  "py_split ''200 info abcdef1234\<newline>'' = [''200'', ''info'', ''abcdef1234'']"
  by (simp add: py_split_def is_space_def)

lemma sample_status:
  "run sample_env h [''zerotier-cli'', ''-T'' @ ''tokB'', ''status'']
     = Exited 0 (''200 info abcdef1234 1.10.1 ONLINE'' @ NL)"
  by (simp add: sample_run table_def sample_procs_def)

lemma short_status:
  "run short_status_env h [''zerotier-cli'', ''-T'' @ ''tokB'', ''status'']
     = Exited 0 (''200 info abcdef1234'' @ NL)"
  by (simp add: short_status_env_def sample_env_def table_def)

lemma split_from_word:
  "\<forall>c\<in>set w. \<not> is_space c \<Longrightarrow> split_from (w @ rest) cur = split_from rest (cur @ w)"
  by (induction w arbitrary: cur) auto

lemma split_from_spaces:
  "\<forall>c\<in>set sp. is_space c \<Longrightarrow> split_from (sp @ rest) [] = split_from rest []"
  by (induction sp) auto

lemma py_split_spaces:
  "\<forall>c\<in>set sp. is_space c \<Longrightarrow> py_split (sp @ rest) = py_split rest"
  by (simp add: py_split_def split_from_spaces)

lemma py_split_word:
  assumes "w \<noteq> []" and "\<forall>c\<in>set w. \<not> is_space c" and "rest = [] \<or> is_space (hd rest)"
  shows "py_split (w @ rest) = w # py_split rest"
proof (cases rest)
  case Nil
  then show ?thesis
    using assms(1,2) split_from_word [of w "[]" "[]"] by (simp add: py_split_def)
next
  case (Cons c cs)
  then have "is_space c" using assms(3) by simp
  then show ?thesis
    using Cons assms(1,2) split_from_word [of w "c # cs" "[]"] by (simp add: py_split_def)
qed

lemma py_split_gap:
  assumes "w \<noteq> []" and "\<forall>c\<in>set w. \<not> is_space c"
    and "sp \<noteq> []" and "\<forall>c\<in>set sp. is_space c"
  shows "py_split (w @ sp @ rest) = w # py_split rest"
proof -
  have next_space: "sp @ rest = [] \<or> is_space (hd (sp @ rest))"
    using assms(3,4) by (cases sp) auto
  have "py_split (w @ sp @ rest) = w # py_split (sp @ rest)"
    using assms(1,2) next_space by (rule py_split_word)
  then show ?thesis using assms(4) by (simp add: py_split_spaces)
qed

lemma py_split_five:
  assumes "\<forall>c\<in>set sp0. is_space c"
    and "\<forall>sp\<in>{sp1, sp2, sp3, sp4}. sp \<noteq> [] \<and> (\<forall>c\<in>set sp. is_space c)"
    and "\<forall>w\<in>{w0, w1, w2, w3, w4}. w \<noteq> [] \<and> (\<forall>c\<in>set w. \<not> is_space c)"
    and "rest = [] \<or> is_space (hd rest)"
  shows "py_split (sp0 @ w0 @ sp1 @ w1 @ sp2 @ w2 @ sp3 @ w3 @ sp4 @ w4 @ rest)
           = w0 # w1 # w2 # w3 # w4 # py_split rest"
proof -
  have "py_split (sp0 @ w0 @ sp1 @ w1 @ sp2 @ w2 @ sp3 @ w3 @ sp4 @ w4 @ rest)
          = py_split (w0 @ sp1 @ w1 @ sp2 @ w2 @ sp3 @ w3 @ sp4 @ w4 @ rest)"
    using assms(1) by (rule py_split_spaces)
  also have "\<dots> = w0 # py_split (w1 @ sp2 @ w2 @ sp3 @ w3 @ sp4 @ w4 @ rest)"
    using assms(2,3) by (intro py_split_gap) auto
  also have "py_split (w1 @ sp2 @ w2 @ sp3 @ w3 @ sp4 @ w4 @ rest)
               = w1 # py_split (w2 @ sp3 @ w3 @ sp4 @ w4 @ rest)"
    using assms(2,3) by (intro py_split_gap) auto
  also have "py_split (w2 @ sp3 @ w3 @ sp4 @ w4 @ rest) = w2 # py_split (w3 @ sp4 @ w4 @ rest)"
    using assms(2,3) by (intro py_split_gap) auto
  also have "py_split (w3 @ sp4 @ w4 @ rest) = w3 # py_split (w4 @ rest)"
    using assms(2,3) by (intro py_split_gap) auto
  also have "py_split (w4 @ rest) = w4 # py_split rest"
    using assms(3,4) by (intro py_split_word) auto
  finally show ?thesis .
qed

lemma latin_status:
  "run latin_status_env h [''zerotier-cli'', ''-T'' @ ''tokB'', ''status'']
     = Exited 0 (''200 info abcdef1234'' @ [CHR 0x85] @ ''1.10.1'' @ [CHR 0xA0] @ ''ONLINE'' @ NL)"
  by (simp add: latin_status_env_def sample_env_def table_def)

lemma split_latin:
  "py_split (''200 info abcdef1234'' @ [CHR 0x85] @ ''1.10.1'' @ [CHR 0xA0] @ ''ONLINE'' @ NL) =
     [''200'', ''info'', ''abcdef1234'', ''1.10.1'', ''ONLINE'']"
  by (simp add: py_split_def is_space_def)

text \<open>
  C5. The status text is cut at white space, and the words are read by position. For
  every status text that begins, after optional white space, with five words, each
  followed by white space or by the end of the text, the status label of the main window
  shows the third word as the id of the node and the fifth as the online state, and the
  About box shows the fourth as the version. The text \<open>200 info abcdef1234 1.10.1 ONLINE\<close>
  is cut into five words, of which these three are \<open>abcdef1234\<close>, \<open>1.10.1\<close> and
  \<open>ONLINE\<close>. White space is one of twelve characters, the next-line character and the
  no-break space among them.
\<close>

theorem status_fixed_offsets:
  "py_split ''200 info abcdef1234 1.10.1 ONLINE'' =
     [''200'', ''info'', ''abcdef1234'', ''1.10.1'', ''ONLINE'']
   \<and> (\<forall>tok.
        authtoken s = Some tok \<and>
        run ev (trace s) [''zerotier-cli'', ''-T'' @ tok, ''status'']
          = Exited 0 (sp0 @ w0 @ sp1 @ w1 @ sp2 @ w2 @ sp3 @ w3 @ sp4 @ w4 @ rest) \<and>
        (\<forall>c\<in>set sp0. is_space c) \<and>
        (\<forall>sp\<in>{sp1, sp2, sp3, sp4}. sp \<noteq> [] \<and> (\<forall>c\<in>set sp. is_space c)) \<and>
        (\<forall>w\<in>{w0, w1, w2, w3, w4}. w \<noteq> [] \<and> (\<forall>c\<in>set w. \<not> is_space c)) \<and>
        (rest = [] \<or> is_space (hd rest))
        \<longrightarrow> get_status ev s =
              (Inr (w0 # w1 # w2 # w3 # w4 # py_split rest),
               s\<lparr>trace := trace s @ [Exec [''zerotier-cli'', ''-T'' @ tok, ''status'']]\<rparr>)
            \<and> statusLabel (snd (refresh_networks ev s)) =
                ''Your ID: '' @ w2 @ '' Status: '' @ w4
            \<and> about_window ev s =
                (Inr (), s\<lparr>trace := trace s @
                   [Exec [''zerotier-cli'', ''-T'' @ tok, ''status''],
                    About ''About'' (about_text w3)]\<rparr>))
   \<and> is_space c =
       (c \<in> {CHR 0x09, CHR 0x0A, CHR 0x0B, CHR 0x0C, CHR 0x0D, CHR 0x1C, CHR 0x1D,
              CHR 0x1E, CHR 0x1F, CHR 0x20, CHR 0x85, CHR 0xA0})"
proof -
  have example: "py_split ''200 info abcdef1234 1.10.1 ONLINE'' =
     [''200'', ''info'', ''abcdef1234'', ''1.10.1'', ''ONLINE'']"
    by (simp add: py_split_def is_space_def)
  have white: "is_space c =
       (c \<in> {CHR 0x09, CHR 0x0A, CHR 0x0B, CHR 0x0C, CHR 0x0D, CHR 0x1C, CHR 0x1D,
              CHR 0x1E, CHR 0x1F, CHR 0x20, CHR 0x85, CHR 0xA0})"
    by (simp add: is_space_def)
  have rule: "get_status ev s =
              (Inr (w0 # w1 # w2 # w3 # w4 # py_split rest),
               s\<lparr>trace := trace s @ [Exec [''zerotier-cli'', ''-T'' @ tok, ''status'']]\<rparr>)
            \<and> statusLabel (snd (refresh_networks ev s)) =
                ''Your ID: '' @ w2 @ '' Status: '' @ w4
            \<and> about_window ev s =
                (Inr (), s\<lparr>trace := trace s @
                   [Exec [''zerotier-cli'', ''-T'' @ tok, ''status''],
                    About ''About'' (about_text w3)]\<rparr>)"
    if tok: "authtoken s = Some tok"
      and out: "run ev (trace s) [''zerotier-cli'', ''-T'' @ tok, ''status'']
          = Exited 0 (sp0 @ w0 @ sp1 @ w1 @ sp2 @ w2 @ sp3 @ w3 @ sp4 @ w4 @ rest)"
      and a: "\<forall>c\<in>set sp0. is_space c"
      and b: "\<forall>sp\<in>{sp1, sp2, sp3, sp4}. sp \<noteq> [] \<and> (\<forall>c\<in>set sp. is_space c)"
      and c: "\<forall>w\<in>{w0, w1, w2, w3, w4}. w \<noteq> [] \<and> (\<forall>c\<in>set w. \<not> is_space c)"
      and d: "rest = [] \<or> is_space (hd rest)"
    for tok
  proof -
    have words: "py_split (sp0 @ w0 @ sp1 @ w1 @ sp2 @ w2 @ sp3 @ w3 @ sp4 @ w4 @ rest)
           = w0 # w1 # w2 # w3 # w4 # py_split rest"
      using a b c d by (rule py_split_five)
    have five: "5 \<le> length (py_split (sp0 @ w0 @ sp1 @ w1 @ sp2 @ w2 @ sp3 @ w3 @ sp4 @ w4 @ rest))"
      unfolding words by simp
    show ?thesis
      using get_status_ok [OF tok out] refresh_networks_label [OF tok out five]
        about_window_ok [OF tok out]
      unfolding words by simp
  qed
  show ?thesis
    using example white rule by blast
qed

theorem status_fixed_offsets_witness:
  "get_status sample_env resolved_state =
     (Inr [''200'', ''info'', ''abcdef1234'', ''1.10.1'', ''ONLINE''],
      resolved_state\<lparr>trace := [Exec [''zerotier-cli'', ''-TtokB'', ''status'']]\<rparr>)
   \<and> statusLabel (snd (refresh_networks sample_env resolved_state)) =
       ''Your ID: abcdef1234 Status: ONLINE''
   \<and> about_window sample_env resolved_state =
       (Inr (), resolved_state\<lparr>trace :=
          [Exec [''zerotier-cli'', ''-TtokB'', ''status''],
           About ''About'' (about_text ''1.10.1'')]\<rparr>)
   \<and> get_status latin_status_env resolved_state =
     (Inr [''200'', ''info'', ''abcdef1234'', ''1.10.1'', ''ONLINE''],
      resolved_state\<lparr>trace := [Exec [''zerotier-cli'', ''-TtokB'', ''status'']]\<rparr>)
   \<and> statusLabel (snd (refresh_networks latin_status_env resolved_state)) =
       ''Your ID: abcdef1234 Status: ONLINE''
   \<and> about_window latin_status_env resolved_state =
       (Inr (), resolved_state\<lparr>trace :=
          [Exec [''zerotier-cli'', ''-TtokB'', ''status''],
           About ''About'' (about_text ''1.10.1'')]\<rparr>)"
proof -
  have plain: "run sample_env (trace resolved_state) [''zerotier-cli'', ''-T'' @ ''tokB'', ''status'']
     = Exited 0 ([] @ ''200'' @ '' '' @ ''info'' @ '' '' @ ''abcdef1234'' @ '' '' @ ''1.10.1''
                 @ '' '' @ ''ONLINE'' @ NL)"
    using sample_status [of "trace resolved_state"] by simp
  have latin: "run latin_status_env (trace resolved_state)
       [''zerotier-cli'', ''-T'' @ ''tokB'', ''status'']
     = Exited 0 ([] @ ''200'' @ '' '' @ ''info'' @ '' '' @ ''abcdef1234'' @ [CHR 0x85] @ ''1.10.1''
                 @ [CHR 0xA0] @ ''ONLINE'' @ NL)"
    using latin_status [of "trace resolved_state"] by simp
  have blanks: "\<forall>c\<in>set []. is_space c"
    "\<forall>sp\<in>{'' '', '' '', '' '', '' ''}. sp \<noteq> [] \<and> (\<forall>c\<in>set sp. is_space c)"
    "\<forall>sp\<in>{'' '', '' '', [CHR 0x85], [CHR 0xA0]}. sp \<noteq> [] \<and> (\<forall>c\<in>set sp. is_space c)"
    by (simp_all add: is_space_def)
  have words: "\<forall>w\<in>{''200'', ''info'', ''abcdef1234'', ''1.10.1'', ''ONLINE''}.
                 w \<noteq> [] \<and> (\<forall>c\<in>set w. \<not> is_space c)"
    by (simp add: is_space_def)
  have ending: "NL = [] \<or> is_space (hd NL)"
    by (simp add: is_space_def)
  have tail: "py_split NL = []"
    by (simp add: py_split_def is_space_def)
  have a: "get_status sample_env resolved_state =
              (Inr (''200'' # ''info'' # ''abcdef1234'' # ''1.10.1'' # ''ONLINE'' # py_split NL),
               resolved_state\<lparr>trace := trace resolved_state @
                  [Exec [''zerotier-cli'', ''-T'' @ ''tokB'', ''status'']]\<rparr>)
            \<and> statusLabel (snd (refresh_networks sample_env resolved_state)) =
                ''Your ID: '' @ ''abcdef1234'' @ '' Status: '' @ ''ONLINE''
            \<and> about_window sample_env resolved_state =
                (Inr (), resolved_state\<lparr>trace := trace resolved_state @
                   [Exec [''zerotier-cli'', ''-T'' @ ''tokB'', ''status''],
                    About ''About'' (about_text ''1.10.1'')]\<rparr>)"
    using status_fixed_offsets [where s = resolved_state and ev = sample_env
            and ?sp0.0 = "[]" and ?w0.0 = "''200''" and ?sp1.0 = "'' ''" and ?w1.0 = "''info''"
            and ?sp2.0 = "'' ''" and ?w2.0 = "''abcdef1234''" and ?sp3.0 = "'' ''"
            and ?w3.0 = "''1.10.1''" and ?sp4.0 = "'' ''" and ?w4.0 = "''ONLINE''"
            and rest = NL, THEN conjunct2, THEN conjunct1]
          resolved_token plain blanks(1,2) words ending
    by blast
  have b: "get_status latin_status_env resolved_state =
              (Inr (''200'' # ''info'' # ''abcdef1234'' # ''1.10.1'' # ''ONLINE'' # py_split NL),
               resolved_state\<lparr>trace := trace resolved_state @
                  [Exec [''zerotier-cli'', ''-T'' @ ''tokB'', ''status'']]\<rparr>)
            \<and> statusLabel (snd (refresh_networks latin_status_env resolved_state)) =
                ''Your ID: '' @ ''abcdef1234'' @ '' Status: '' @ ''ONLINE''
            \<and> about_window latin_status_env resolved_state =
                (Inr (), resolved_state\<lparr>trace := trace resolved_state @
                   [Exec [''zerotier-cli'', ''-T'' @ ''tokB'', ''status''],
                    About ''About'' (about_text ''1.10.1'')]\<rparr>)"
    using status_fixed_offsets [where s = resolved_state and ev = latin_status_env
            and ?sp0.0 = "[]" and ?w0.0 = "''200''" and ?sp1.0 = "'' ''" and ?w1.0 = "''info''"
            and ?sp2.0 = "'' ''" and ?w2.0 = "''abcdef1234''" and ?sp3.0 = "[CHR 0x85]"
            and ?w3.0 = "''1.10.1''" and ?sp4.0 = "[CHR 0xA0]" and ?w4.0 = "''ONLINE''"
            and rest = NL, THEN conjunct2, THEN conjunct1]
          resolved_token latin blanks(1,3) words ending
    by blast
  show ?thesis
    using a b by (simp add: tail resolved_trace)
qed

lemma get_token_no_index: "get_token ev s = (r, s1) \<Longrightarrow> r \<noteq> Inl IndexError"
  by (auto simp: get_token_def isfile_def open_read_def
           split: option.splits if_splits bool.splits)

lemma check_output_no_index: "check_output ev s argv = (r, s1) \<Longrightarrow> r \<noteq> Inl IndexError"
  by (auto simp: check_output_def split: proc_result.splits if_splits)

lemma get_networks_info_no_index:
  "get_networks_info ev s = (r, s1) \<Longrightarrow> r \<noteq> Inl IndexError"
  by (auto simp: get_networks_info_def split: prod.splits sum.splits option.splits
           dest!: get_token_no_index check_output_no_index)

lemma get_interface_state_no_index:
  "get_interface_state ev s i = (r, s1) \<Longrightarrow> r \<noteq> Inl IndexError"
  by (auto simp: get_interface_state_def split: prod.splits sum.splits option.splits
           dest!: check_output_no_index)

lemma refresh_rows_no_index:
  "refresh_rows ev s ns acc = (r, s1) \<Longrightarrow> r \<noteq> Inl IndexError"
proof (induction ns arbitrary: s acc)
  case Nil
  then show ?case by auto
next
  case (Cons n ns)
  obtain q s' where step: "get_interface_state ev s (portDeviceName n) = (q, s')"
    by (cases "get_interface_state ev s (portDeviceName n)")
  have ok: "q \<noteq> Inl IndexError"
    using step by (rule get_interface_state_no_index)
  show ?case
  proof (cases q)
    case (Inl e)
    with Cons.prems step ok show ?thesis by auto
  next
    case (Inr st)
    with Cons.prems step have "refresh_rows ev s' ns
        (acc @ [([netid n, (if name n \<noteq> [] then name n else ''Unknown Name''),
                  status n, portDeviceName n], py_lower st = ''down'')]) = (r, s1)"
      by simp
    then show ?thesis by (rule Cons.IH)
  qed
qed

lemma refresh_networks_long:
  assumes "authtoken s = Some tok"
    and "run ev (trace s) [''zerotier-cli'', ''-T'' @ tok, ''status''] = Exited 0 out"
    and "5 \<le> length (py_split out)"
  shows "fst (refresh_networks ev s) \<noteq> Inl IndexError"
  using assms
  by (auto simp: refresh_networks_def get_status_ok py_index_def
           split: prod.splits sum.splits
           dest!: get_networks_info_no_index refresh_rows_no_index)

text \<open>
  C10. \<open>get_status\<close> returns the words of the status text, however few, and checks no
  length. With five words or more the reads at positions 2, 3 and 4 are in range. The
  refresh of the main window, which reads positions 2 and 4, raises \<open>IndexError\<close> exactly
  when there are fewer than five words, and the About box, which reads position 3,
  exactly when there are fewer than four.
\<close>

theorem status_index_bounds:
  assumes "authtoken s = Some tok"
    and "run ev (trace s) [''zerotier-cli'', ''-T'' @ tok, ''status''] = Exited 0 out"
  shows "get_status ev s =
           (Inr (py_split out),
            s\<lparr>trace := trace s @ [Exec [''zerotier-cli'', ''-T'' @ tok, ''status'']]\<rparr>)
       \<and> (5 \<le> length (py_split out) \<longrightarrow>
            py_index (py_split out) 2 = Inr (py_split out ! 2) \<and>
            py_index (py_split out) 3 = Inr (py_split out ! 3) \<and>
            py_index (py_split out) 4 = Inr (py_split out ! 4))
       \<and> (fst (refresh_networks ev s) = Inl IndexError) = (length (py_split out) < 5)
       \<and> (fst (about_window ev s) = Inl IndexError) = (length (py_split out) < 4)"
proof -
  have short: "length (py_split out) < 5 \<Longrightarrow> fst (refresh_networks ev s) = Inl IndexError"
    using assms by (simp add: refresh_networks_short)
  have long: "\<not> length (py_split out) < 5 \<Longrightarrow> fst (refresh_networks ev s) \<noteq> Inl IndexError"
    using assms by (simp add: refresh_networks_long)
  have refresh: "(fst (refresh_networks ev s) = Inl IndexError) = (length (py_split out) < 5)"
    using short long by blast
  have about: "(fst (about_window ev s) = Inl IndexError) = (length (py_split out) < 4)"
    using assms by (simp add: about_window_ok)
  show ?thesis
    using assms refresh about by (simp add: get_status_ok py_index_def)
qed

theorem status_index_bounds_witness:
  "fst (refresh_networks sample_env resolved_state) \<noteq> Inl IndexError
   \<and> fst (about_window sample_env resolved_state) \<noteq> Inl IndexError
   \<and> py_index (py_split (''200 info abcdef1234 1.10.1 ONLINE'' @ NL)) 4 = Inr ''ONLINE''
   \<and> fst (refresh_networks latin_status_env resolved_state) \<noteq> Inl IndexError
   \<and> fst (about_window latin_status_env resolved_state) \<noteq> Inl IndexError
   \<and> get_status short_status_env resolved_state =
       (Inr [''200'', ''info'', ''abcdef1234''],
        resolved_state\<lparr>trace := [Exec [''zerotier-cli'', ''-TtokB'', ''status'']]\<rparr>)
   \<and> fst (refresh_networks short_status_env resolved_state) = Inl IndexError
   \<and> fst (about_window short_status_env resolved_state) = Inl IndexError"
  using status_index_bounds [OF resolved_token sample_status]
        status_index_bounds [OF resolved_token latin_status]
        status_index_bounds [OF resolved_token short_status]
  by (simp add: split_sample split_short split_latin [simplified] resolved_trace)

section \<open>Properties of the refresh\<close>

lemma vanished_run:
  "run vanished_env h argv =
     table (([''ip'', ''--json'', ''address''], Exited 0 partial_interfaces_json) # sample_procs) h argv"
  by (simp add: vanished_env_def sample_env_def)

lemma json_texts_differ:
  "partial_interfaces_json \<noteq> interfaces_json"
  by (simp add: partial_interfaces_json_def interfaces_json_def)

lemma vanished_loads:
  "loads_interfaces vanished_env partial_interfaces_json = Some (butlast sample_interfaces)"
  "loads_networks vanished_env networks_json = Some sample_networks"
  by (simp_all add: vanished_env_def sample_env_def json_texts_differ)

lemma vanished_ip:
  "run vanished_env h [''ip'', ''--json'', ''address''] = Exited 0 partial_interfaces_json"
  by (simp add: vanished_run table_def)

lemma vanished_status:
  "run vanished_env h [''zerotier-cli'', ''-T'' @ ''tokB'', ''status'']
     = Exited 0 ''200 info abcdef1234 1.10.1 ONLINE\<newline>''"
  by (simp add: vanished_run table_def sample_procs_def)

lemma vanished_listnetworks:
  "run vanished_env h [''zerotier-cli'', ''-T'' @ ''tokB'', ''-j'', ''listnetworks'']
     = Exited 0 networks_json"
  by (simp add: vanished_run table_def sample_procs_def)

text \<open>
  C2 (the code departs from the claim). The claim has a refresh go on when the interface
  of one network cannot be read, with that network shown as unknown and the others as
  usual. In \<open>get_interface_state\<close> the loop over the interface table leaves the local
  \<open>state\<close> unassigned when no entry has the name, and \<open>return state\<close> raises
  \<open>UnboundLocalError\<close>, which \<open>refresh_networks\<close> does not catch. With two networks, of which
  the second has its device missing from the table, the refresh ends with that error
  after the table of the window has been cleared: no row is shown, the row of the first
  network included. With both devices in the table the same refresh shows both rows.
\<close>

theorem refresh_networks_aborts_on_missing_interface:
  "refresh_networks vanished_env resolved_state =
     (Inl UnboundLocalError,
      resolved_state\<lparr>statusLabel := ''Your ID: abcdef1234 Status: ONLINE'',
        networksTable := [],
        trace := [Exec [''zerotier-cli'', ''-TtokB'', ''status''],
                  Exec [''zerotier-cli'', ''-TtokB'', ''-j'', ''listnetworks''],
                  Exec [''ip'', ''--json'', ''address''],
                  Exec [''ip'', ''--json'', ''address'']]\<rparr>)
   \<and> refresh_networks sample_env resolved_state =
     (Inr (),
      resolved_state\<lparr>statusLabel := ''Your ID: abcdef1234 Status: ONLINE'',
        networksTable :=
          [([''8056c2e21c000001'', ''lab'', ''OK'', ''ztabc''], True),
           ([''1d71939404912b40'', ''Unknown Name'', ''OK'', ''ztdef''], False)],
        trace := [Exec [''zerotier-cli'', ''-TtokB'', ''status''],
                  Exec [''zerotier-cli'', ''-TtokB'', ''-j'', ''listnetworks''],
                  Exec [''ip'', ''--json'', ''address''],
                  Exec [''ip'', ''--json'', ''address'']]\<rparr>)"
proof -
  have gone: "refresh_networks vanished_env resolved_state =
     (Inl UnboundLocalError,
      resolved_state\<lparr>statusLabel := ''Your ID: abcdef1234 Status: ONLINE'',
        networksTable := [],
        trace := [Exec [''zerotier-cli'', ''-TtokB'', ''status''],
                  Exec [''zerotier-cli'', ''-TtokB'', ''-j'', ''listnetworks''],
                  Exec [''ip'', ''--json'', ''address''],
                  Exec [''ip'', ''--json'', ''address'']]\<rparr>)"
    by (simp add: refresh_networks_def get_status_def get_networks_info_def
          get_interface_state_def get_token_cached resolved_token resolved_trace
          check_output_exited vanished_status [simplified] vanished_listnetworks [simplified]
          vanished_ip vanished_loads
          split_sample py_index_def sample_networks_def sample_interfaces_def lower_samples)
  have there: "refresh_networks sample_env resolved_state =
     (Inr (),
      resolved_state\<lparr>statusLabel := ''Your ID: abcdef1234 Status: ONLINE'',
        networksTable :=
          [([''8056c2e21c000001'', ''lab'', ''OK'', ''ztabc''], True),
           ([''1d71939404912b40'', ''Unknown Name'', ''OK'', ''ztdef''], False)],
        trace := [Exec [''zerotier-cli'', ''-TtokB'', ''status''],
                  Exec [''zerotier-cli'', ''-TtokB'', ''-j'', ''listnetworks''],
                  Exec [''ip'', ''--json'', ''address''],
                  Exec [''ip'', ''--json'', ''address'']]\<rparr>)"
    by (simp add: refresh_networks_def get_status_def get_networks_info_def
          get_interface_state_def get_token_cached resolved_token resolved_trace
          check_output_exited sample_status [simplified] sample_listnetworks [simplified] sample_ip
          sample_loads_networks sample_loads_interfaces
          split_sample py_index_def sample_networks_def sample_interfaces_def lower_samples)
  show ?thesis
    using gone there by simp
qed

section \<open>Properties of the calls through pkexec\<close>

lemma toggle_call_exited:
  "run ev (trace s) [''pkexec'', ''ip'', ''link'', ''set'', interfaceName, direction]
     = Exited rc out \<Longrightarrow>
   toggle_call ev s interfaceName direction =
     (Inr (rc = 0),
      s\<lparr>trace := trace s @
         [Exec [''pkexec'', ''ip'', ''link'', ''set'', interfaceName, direction]]\<rparr>)"
  by (simp add: toggle_call_def check_call_exited)

lemma setup_auth_token_local_copy:
  assumes "uid ev \<noteq> 0"
    and "files ev (abspath ev (AUTH_FILE ev)) = None"
    and "question ev (trace s @ [IsFile (abspath ev (AUTH_FILE ev)), Makedirs (CONFIG_DIR ev)])
           ''Missing Local Authtoken'' (missing_token_text ev)"
    and "run ev (trace s @ [IsFile (abspath ev (AUTH_FILE ev)), Makedirs (CONFIG_DIR ev),
                            Question ''Missing Local Authtoken'' (missing_token_text ev)])
           [''pkexec'', ''bash'', ''-c'', copy_script ev] = Exited rc out"
  shows "setup_auth_token_local ev s =
           ((if rc = 0 then Inr () else Inl (ProcessExit 1)),
            s\<lparr>trace := trace s @
               [IsFile (abspath ev (AUTH_FILE ev)), Makedirs (CONFIG_DIR ev),
                Question ''Missing Local Authtoken'' (missing_token_text ev),
                Exec [''pkexec'', ''bash'', ''-c'', copy_script ev]]
               @ (if rc = 0 \<or> rc = 127 then []
                  else [Critical ''Operation Failed''
                          (''Failed to copy authtoken.secret.'' @ NL @ NL
                           @ ''Command Output:'' @ NL @ '' '' @ py_strip out)])\<rparr>)"
  using assms
  by (simp add: setup_auth_token_local_def isfile_def Let_def check_output_exited)

lemma toggle_interface_exited:
  assumes "get_interface_state ev s interfaceName = (Inr st, s1)"
    and "run ev (trace s1)
          [''pkexec'', ''ip'', ''link'', ''set'', interfaceName,
           (if py_lower st = ''down'' then ''up'' else ''down'')] = Exited rc out"
  shows "toggle_interface ev s interfaceName =
            (Inr (rc = 0),
             s1\<lparr>trace := trace s1 @
                [Exec [''pkexec'', ''ip'', ''link'', ''set'', interfaceName,
                       (if py_lower st = ''down'' then ''up'' else ''down'')]]\<rparr>)"
  using assms by (auto simp: toggle_interface_def toggle_call_exited split: if_splits)

lemma setup_auth_token_copy:
  assumes "uid ev \<noteq> 0" and "files ev (abspath ev SYSTEM_SECRET) \<noteq> None"
    and "files ev (abspath ev (AUTH_FILE ev)) = None"
    and "question ev (trace s @ [IsFile (abspath ev SYSTEM_SECRET),
                                IsFile (abspath ev (AUTH_FILE ev)), Makedirs (CONFIG_DIR ev)])
          ''Missing Local Authtoken'' (missing_token_text ev)"
    and "run ev (trace s @ [IsFile (abspath ev SYSTEM_SECRET),
                           IsFile (abspath ev (AUTH_FILE ev)), Makedirs (CONFIG_DIR ev),
                           Question ''Missing Local Authtoken'' (missing_token_text ev)])
          [''pkexec'', ''bash'', ''-c'', copy_script ev] = Exited rc out"
  shows "setup_auth_token ev s =
              ((if rc = 0 then Inr () else Inl (ProcessExit 1)),
               s\<lparr>trace := trace s @
                  [IsFile (abspath ev SYSTEM_SECRET),
                   IsFile (abspath ev (AUTH_FILE ev)), Makedirs (CONFIG_DIR ev),
                   Question ''Missing Local Authtoken'' (missing_token_text ev),
                   Exec [''pkexec'', ''bash'', ''-c'', copy_script ev]]
                  @ (if rc = 0 \<or> rc = 127 then []
                     else [Critical ''Operation Failed''
                             (''Failed to copy authtoken.secret.'' @ NL @ NL
                              @ ''Command Output:'' @ NL @ '' '' @ py_strip out)])\<rparr>)"
  using assms
  by (auto simp: setup_auth_token_def isfile_def
        setup_auth_token_local_copy [where rc = rc and out = out])

lemma pkexec_env_fields:
  "uid (pkexec_env rc out) = 1000"
  "copy_script (pkexec_env rc out) = copy_script sample_env"
  "AUTH_FILE (pkexec_env rc out) = ''/home/u/.config/zerotier-qt/authtoken.secret''"
  "CONFIG_DIR (pkexec_env rc out) = ''/home/u/.config/zerotier-qt''"
  "abspath (pkexec_env rc out) ''/home/u/.config/zerotier-qt/authtoken.secret''
     = ''/home/u/.config/zerotier-qt/authtoken.secret''"
  "abspath (pkexec_env rc out) SYSTEM_SECRET = ''/var/lib/zerotier-one/authtoken.secret''"
  "files (pkexec_env rc out) ''/home/u/.config/zerotier-qt/authtoken.secret'' = None"
  "files (pkexec_env rc out) ''/var/lib/zerotier-one/authtoken.secret'' = Some (''tokS'' @ NL)"
  "question (pkexec_env rc out) h title text"
  "loads_interfaces (pkexec_env rc out) interfaces_json = Some sample_interfaces"
  by (simp_all add: pkexec_env_def sample_env_def copy_script_def fs_defs)

lemma pkexec_env_run:
  "run (pkexec_env rc out) h [''pkexec'', ''bash'', ''-c'', copy_script sample_env] = Exited rc out"
  "run (pkexec_env rc out) h [''pkexec'', ''ip'', ''link'', ''set'', ''ztabc'', ''up'']
     = Exited rc out"
  "run (pkexec_env rc out) h [''ip'', ''--json'', ''address''] = Exited 0 interfaces_json"
  by (simp_all add: pkexec_env_def sample_env_def table_def sample_procs_def)

lemma pkexec_state_ztabc:
  "get_interface_state (pkexec_env rc out) resolved_state ''ztabc'' =
     (Inr ''DOWN'', resolved_state\<lparr>trace := [Exec [''ip'', ''--json'', ''address'']]\<rparr>)"
  by (simp add: get_interface_state_def check_output_exited pkexec_env_run pkexec_env_fields
        sample_interfaces_def resolved_trace)

lemma dismissed_strip:
  "py_strip ''Request dismissed\<newline>'' = ''Request dismissed''"
  by (simp add: py_strip_def strip_with_def is_space_def)

text \<open>
  C6, as the code has it. The two calls through \<open>pkexec\<close> tell fewer outcomes apart than
  the claim says. \<open>toggle_interface\<close> returns \<open>True\<close> when the command exits with 0 and
  \<open>False\<close> for every other return code, whichever it is. The copy of the token at start
  ends the process with code 1 for every return code other than 0, silently for 127 and
  after a box headed Operation Failed, with the output of the command, for any other;
  a prompt that the user has dismissed is not told apart from a command that failed.
\<close>

theorem escalation_outcomes:
  "(\<forall>st s1 rc out.
      get_interface_state ev s interfaceName = (Inr st, s1) \<and>
      run ev (trace s1)
          [''pkexec'', ''ip'', ''link'', ''set'', interfaceName,
           (if py_lower st = ''down'' then ''up'' else ''down'')] = Exited rc out
      \<longrightarrow> toggle_interface ev s interfaceName =
            (Inr (rc = 0),
             s1\<lparr>trace := trace s1 @
                [Exec [''pkexec'', ''ip'', ''link'', ''set'', interfaceName,
                       (if py_lower st = ''down'' then ''up'' else ''down'')]]\<rparr>))
   \<and> (\<forall>rc out.
        uid ev \<noteq> 0 \<and>
        files ev (abspath ev SYSTEM_SECRET) \<noteq> None \<and>
        files ev (abspath ev (AUTH_FILE ev)) = None \<and>
        question ev (trace s @ [IsFile (abspath ev SYSTEM_SECRET),
                                IsFile (abspath ev (AUTH_FILE ev)), Makedirs (CONFIG_DIR ev)])
          ''Missing Local Authtoken'' (missing_token_text ev) \<and>
        run ev (trace s @ [IsFile (abspath ev SYSTEM_SECRET),
                           IsFile (abspath ev (AUTH_FILE ev)), Makedirs (CONFIG_DIR ev),
                           Question ''Missing Local Authtoken'' (missing_token_text ev)])
          [''pkexec'', ''bash'', ''-c'', copy_script ev] = Exited rc out
        \<longrightarrow> setup_auth_token ev s =
              ((if rc = 0 then Inr () else Inl (ProcessExit 1)),
               s\<lparr>trace := trace s @
                  [IsFile (abspath ev SYSTEM_SECRET),
                   IsFile (abspath ev (AUTH_FILE ev)), Makedirs (CONFIG_DIR ev),
                   Question ''Missing Local Authtoken'' (missing_token_text ev),
                   Exec [''pkexec'', ''bash'', ''-c'', copy_script ev]]
                  @ (if rc = 0 \<or> rc = 127 then []
                     else [Critical ''Operation Failed''
                             (''Failed to copy authtoken.secret.'' @ NL @ NL
                              @ ''Command Output:'' @ NL @ '' '' @ py_strip out)])\<rparr>))"
  by (simp add: toggle_interface_exited setup_auth_token_copy)

theorem escalation_outcomes_witness:
  "toggle_interface (pkexec_env 0 []) resolved_state ''ztabc'' =
     (Inr True, resolved_state\<lparr>trace :=
        [Exec [''ip'', ''--json'', ''address''],
         Exec [''pkexec'', ''ip'', ''link'', ''set'', ''ztabc'', ''up'']]\<rparr>)
   \<and> toggle_interface (pkexec_env 126 []) resolved_state ''ztabc'' =
     (Inr False, resolved_state\<lparr>trace :=
        [Exec [''ip'', ''--json'', ''address''],
         Exec [''pkexec'', ''ip'', ''link'', ''set'', ''ztabc'', ''up'']]\<rparr>)
   \<and> setup_auth_token (pkexec_env 127 []) initial_state =
     (Inl (ProcessExit 1), initial_state\<lparr>trace :=
        [IsFile ''/var/lib/zerotier-one/authtoken.secret'',
         IsFile ''/home/u/.config/zerotier-qt/authtoken.secret'',
         Makedirs ''/home/u/.config/zerotier-qt'',
         Question ''Missing Local Authtoken'' (missing_token_text (pkexec_env 127 [])),
         Exec [''pkexec'', ''bash'', ''-c'', copy_script sample_env]]\<rparr>)
   \<and> setup_auth_token (pkexec_env 1 ''cp: failed\<newline>'') initial_state =
     (Inl (ProcessExit 1), initial_state\<lparr>trace :=
        [IsFile ''/var/lib/zerotier-one/authtoken.secret'',
         IsFile ''/home/u/.config/zerotier-qt/authtoken.secret'',
         Makedirs ''/home/u/.config/zerotier-qt'',
         Question ''Missing Local Authtoken''
           (missing_token_text (pkexec_env 1 ''cp: failed\<newline>'')),
         Exec [''pkexec'', ''bash'', ''-c'', copy_script sample_env],
         Critical ''Operation Failed''
           (''Failed to copy authtoken.secret.'' @ NL @ NL
            @ ''Command Output:'' @ NL @ '' cp: failed'')]\<rparr>)"
proof -
  have strip: "py_strip ''cp: failed\<newline>'' = ''cp: failed''"
    by (simp add: py_strip_def strip_with_def is_space_def)
  have t0: "toggle_interface (pkexec_env 0 []) resolved_state ''ztabc'' =
     (Inr ((0::int) = 0), resolved_state\<lparr>trace := [Exec [''ip'', ''--json'', ''address'']]\<rparr>
        \<lparr>trace := trace (resolved_state\<lparr>trace := [Exec [''ip'', ''--json'', ''address'']]\<rparr>) @
           [Exec [''pkexec'', ''ip'', ''link'', ''set'', ''ztabc'',
                  (if py_lower ''DOWN'' = ''down'' then ''up'' else ''down'')]]\<rparr>)"
    using escalation_outcomes [of "pkexec_env 0 []" resolved_state "''ztabc''"]
          pkexec_state_ztabc [of 0 "[]"] pkexec_env_run(2) [of 0 "[]"]
    by (simp add: lower_samples)
  have t126: "toggle_interface (pkexec_env 126 []) resolved_state ''ztabc'' =
     (Inr ((126::int) = 0), resolved_state\<lparr>trace := [Exec [''ip'', ''--json'', ''address'']]\<rparr>
        \<lparr>trace := trace (resolved_state\<lparr>trace := [Exec [''ip'', ''--json'', ''address'']]\<rparr>) @
           [Exec [''pkexec'', ''ip'', ''link'', ''set'', ''ztabc'',
                  (if py_lower ''DOWN'' = ''down'' then ''up'' else ''down'')]]\<rparr>)"
    using escalation_outcomes [of "pkexec_env 126 []" resolved_state "''ztabc''"]
          pkexec_state_ztabc [of 126 "[]"] pkexec_env_run(2) [of 126 "[]"]
    by (simp add: lower_samples)
  have s127: "setup_auth_token (pkexec_env 127 []) initial_state =
     (Inl (ProcessExit 1), initial_state\<lparr>trace :=
        [IsFile ''/var/lib/zerotier-one/authtoken.secret'',
         IsFile ''/home/u/.config/zerotier-qt/authtoken.secret'',
         Makedirs ''/home/u/.config/zerotier-qt'',
         Question ''Missing Local Authtoken'' (missing_token_text (pkexec_env 127 [])),
         Exec [''pkexec'', ''bash'', ''-c'', copy_script sample_env]]\<rparr>)"
    using escalation_outcomes [of "pkexec_env 127 []" initial_state]
    by (simp add: pkexec_env_fields pkexec_env_run initial_state_def)
  have s1: "setup_auth_token (pkexec_env 1 ''cp: failed\<newline>'') initial_state =
     (Inl (ProcessExit 1), initial_state\<lparr>trace :=
        [IsFile ''/var/lib/zerotier-one/authtoken.secret'',
         IsFile ''/home/u/.config/zerotier-qt/authtoken.secret'',
         Makedirs ''/home/u/.config/zerotier-qt'',
         Question ''Missing Local Authtoken''
           (missing_token_text (pkexec_env 1 ''cp: failed\<newline>'')),
         Exec [''pkexec'', ''bash'', ''-c'', copy_script sample_env],
         Critical ''Operation Failed''
           (''Failed to copy authtoken.secret.'' @ NL @ NL
            @ ''Command Output:'' @ NL @ '' cp: failed'')]\<rparr>)"
    using escalation_outcomes [of "pkexec_env 1 ''cp: failed\<newline>''" initial_state]
    by (simp add: pkexec_env_fields pkexec_env_run initial_state_def strip)
  show ?thesis
    using t0 t126 s127 s1 by (simp add: lower_samples resolved_trace)
qed

text \<open>
  The claim of three outcomes that can be told apart fails on return codes 127, 126 and 2:
  \<open>toggle_interface\<close> gives the same result for all three, and the copy of the token treats
  126, the code of a dismissed prompt, as a failure, with the error box and exit code 1.
\<close>

theorem escalation_outcomes_counterexample:
  "toggle_interface (pkexec_env 127 []) resolved_state ''ztabc'' =
     (Inr False, resolved_state\<lparr>trace :=
        [Exec [''ip'', ''--json'', ''address''],
         Exec [''pkexec'', ''ip'', ''link'', ''set'', ''ztabc'', ''up'']]\<rparr>)
   \<and> toggle_interface (pkexec_env 126 []) resolved_state ''ztabc'' =
     (Inr False, resolved_state\<lparr>trace :=
        [Exec [''ip'', ''--json'', ''address''],
         Exec [''pkexec'', ''ip'', ''link'', ''set'', ''ztabc'', ''up'']]\<rparr>)
   \<and> toggle_interface (pkexec_env 2 []) resolved_state ''ztabc'' =
     (Inr False, resolved_state\<lparr>trace :=
        [Exec [''ip'', ''--json'', ''address''],
         Exec [''pkexec'', ''ip'', ''link'', ''set'', ''ztabc'', ''up'']]\<rparr>)
   \<and> setup_auth_token (pkexec_env 126 ''Request dismissed\<newline>'') initial_state =
     (Inl (ProcessExit 1), initial_state\<lparr>trace :=
        [IsFile ''/var/lib/zerotier-one/authtoken.secret'',
         IsFile ''/home/u/.config/zerotier-qt/authtoken.secret'',
         Makedirs ''/home/u/.config/zerotier-qt'',
         Question ''Missing Local Authtoken''
           (missing_token_text (pkexec_env 126 ''Request dismissed\<newline>'')),
         Exec [''pkexec'', ''bash'', ''-c'', copy_script sample_env],
         Critical ''Operation Failed''
           (''Failed to copy authtoken.secret.'' @ NL @ NL
            @ ''Command Output:'' @ NL @ '' Request dismissed'')]\<rparr>)"
proof -
  have toggle: "toggle_interface (pkexec_env rc []) resolved_state ''ztabc'' =
     (Inr (rc = 0), resolved_state\<lparr>trace :=
        [Exec [''ip'', ''--json'', ''address''],
         Exec [''pkexec'', ''ip'', ''link'', ''set'', ''ztabc'', ''up'']]\<rparr>)" for rc
    by (simp add: toggle_interface_def pkexec_state_ztabc lower_samples toggle_call_def
          check_call_exited pkexec_env_run)
  have copied: "setup_auth_token (pkexec_env 126 ''Request dismissed\<newline>'') initial_state =
     (Inl (ProcessExit 1), initial_state\<lparr>trace :=
        [IsFile ''/var/lib/zerotier-one/authtoken.secret'',
         IsFile ''/home/u/.config/zerotier-qt/authtoken.secret'',
         Makedirs ''/home/u/.config/zerotier-qt'',
         Question ''Missing Local Authtoken''
           (missing_token_text (pkexec_env 126 ''Request dismissed\<newline>'')),
         Exec [''pkexec'', ''bash'', ''-c'', copy_script sample_env],
         Critical ''Operation Failed''
           (''Failed to copy authtoken.secret.'' @ NL @ NL
            @ ''Command Output:'' @ NL @ '' Request dismissed'')]\<rparr>)"
    by (simp add: setup_auth_token_def setup_auth_token_local_def isfile_def Let_def
          pkexec_env_fields pkexec_env_run check_output_exited dismissed_strip
          initial_state_def)
  show ?thesis
    using toggle [of 127] toggle [of 126] toggle [of 2] copied by simp
qed

end
